theory Spec2Isabelle
  imports Complex_Main
begin

section \<open>Tensors and errors\<close>

text \<open>
  Tensor entries are modelled as real numbers: the arithmetic of the source is read
  exactly, rounding is outside the model. A tensor with a leading batch dimension is a
  list; the fixed trailing shapes of the camera code (\<open>[3]\<close>, \<open>[3, 3]\<close>,
  \<open>[4, 4]\<close>) are tuples, so that only the batch dimension can be malformed.
\<close>

type_synonym vec3 = "real \<times> real \<times> real"
type_synonym mat3 = "vec3 \<times> vec3 \<times> vec3"
type_synonym vec4 = "real \<times> real \<times> real \<times> real"
type_synonym mat4 = "vec4 \<times> vec4 \<times> vec4 \<times> vec4"

text \<open>
  The stage of \<open>Cameras.__post_init__\<close> whose tensor operation raised: there is no
  validation step in the source, a shape error can only come from one of the operations.
\<close>

datatype stage = FovStage | W2cStage | ProjectionStage | FullProjectionStage

datatype error =
    DimensionMismatch stage
  | LinAlgError
  | ShapeError
  | IndexError
  | KeyError
  | ValueError
  | ZeroDivisionError
  | AttributeError
  | RuntimeError
  | ComplexResult

subsection \<open>Broadcasting on the batch dimension\<close>

text \<open>
  \<open>a op b\<close> along the batch dimension: equal lengths go elementwise, a tensor of
  length 1 is expanded to the other length, anything else raises the error \<open>err\<close> of
  the place.
\<close>

definition broadcast2 ::
  "error \<Rightarrow> ('a \<Rightarrow> 'b \<Rightarrow> 'c) \<Rightarrow> 'a list \<Rightarrow> 'b list \<Rightarrow> error + 'c list" where
  "broadcast2 err f xs ys =
     (if length xs = length ys then Inr (map2 f xs ys)
      else if length xs = 1 then Inr (map (\<lambda>y. f (hd xs) y) ys)
      else if length ys = 1 then Inr (map (\<lambda>x. f x (hd ys)) xs)
      else Inl err)"

text \<open>
  \<open>target[:, ...] = value\<close>: the value is expanded to the target's batch size \<open>n\<close>;
  only a value of length \<open>n\<close> or 1 can be.
\<close>

definition expand_to :: "error \<Rightarrow> nat \<Rightarrow> 'a list \<Rightarrow> error + 'a list" where
  "expand_to err n xs =
     (if length xs = n then Inr xs
      else if length xs = 1 then Inr (replicate n (hd xs))
      else Inl err)"

subsection \<open>4x4 matrices\<close>

definition zeros4 :: mat4 where
  "zeros4 = ((0, 0, 0, 0), (0, 0, 0, 0), (0, 0, 0, 0), (0, 0, 0, 0))"

definition eye4 :: mat4 where
  "eye4 = ((1, 0, 0, 0), (0, 1, 0, 0), (0, 0, 1, 0), (0, 0, 0, 1))"

fun comp4 :: "vec4 \<Rightarrow> nat \<Rightarrow> real" where
  "comp4 (a, b, c, d) j = (if j = 0 then a else if j = 1 then b else if j = 2 then c else d)"

fun row4 :: "mat4 \<Rightarrow> nat \<Rightarrow> vec4" where
  "row4 (r0, r1, r2, r3) i = (if i = 0 then r0 else if i = 1 then r1 else if i = 2 then r2 else r3)"

definition entry4 :: "mat4 \<Rightarrow> nat \<Rightarrow> nat \<Rightarrow> real" where
  "entry4 M i j = comp4 (row4 M i) j"

fun updv4 :: "vec4 \<Rightarrow> nat \<Rightarrow> real \<Rightarrow> vec4" where
  "updv4 (a, b, c, d) j v =
     (if j = 0 then (v, b, c, d) else if j = 1 then (a, v, c, d)
      else if j = 2 then (a, b, v, d) else (a, b, c, v))"

fun upd4 :: "mat4 \<Rightarrow> nat \<Rightarrow> nat \<Rightarrow> real \<Rightarrow> mat4" where
  "upd4 (r0, r1, r2, r3) i j v =
     (if i = 0 then (updv4 r0 j v, r1, r2, r3) else if i = 1 then (r0, updv4 r1 j v, r2, r3)
      else if i = 2 then (r0, r1, updv4 r2 j v, r3) else (r0, r1, r2, updv4 r3 j v))"

fun transpose4 :: "mat4 \<Rightarrow> mat4" where
  "transpose4 ((a0, a1, a2, a3), (b0, b1, b2, b3), (c0, c1, c2, c3), (d0, d1, d2, d3)) =
     ((a0, b0, c0, d0), (a1, b1, c1, d1), (a2, b2, c2, d2), (a3, b3, c3, d3))"

fun dot4 :: "vec4 \<Rightarrow> vec4 \<Rightarrow> real" where
  "dot4 (a, b, c, d) (e, f, g, h) = a * e + b * f + c * g + d * h"

fun vecmat4 :: "vec4 \<Rightarrow> mat4 \<Rightarrow> vec4" where
  "vecmat4 r (c0, c1, c2, c3) = (dot4 r c0, dot4 r c1, dot4 r c2, dot4 r c3)"

text \<open>The matrix product: each row of the left factor against the columns of the right.\<close>

fun matmul4 :: "mat4 \<Rightarrow> mat4 \<Rightarrow> mat4" where
  "matmul4 (r0, r1, r2, r3) B =
     (let Bt = transpose4 B in (vecmat4 r0 Bt, vecmat4 r1 Bt, vecmat4 r2 Bt, vecmat4 r3 Bt))"

text \<open>\<open>a.bmm(b)\<close>: both batches must have the same size; there is no broadcasting.\<close>

definition bmm :: "mat4 list \<Rightarrow> mat4 list \<Rightarrow> error + mat4 list" where
  "bmm As Bs =
     (if length As = length Bs then Inr (map2 matmul4 As Bs)
      else Inl (DimensionMismatch FullProjectionStage))"

subsection \<open>The inverse of a 4x4 matrix\<close>

definition det3 ::
  "real \<Rightarrow> real \<Rightarrow> real \<Rightarrow> real \<Rightarrow> real \<Rightarrow> real \<Rightarrow> real \<Rightarrow> real \<Rightarrow> real \<Rightarrow> real" where
  "det3 a b c d e f g h i = a * (e * i - f * h) - b * (d * i - f * g) + c * (d * h - e * g)"

text \<open>The matrix of cofactors: entry \<open>(i, j)\<close> is the signed minor without row i and column j.\<close>

fun cof4 :: "mat4 \<Rightarrow> mat4" where
  "cof4 ((a0, a1, a2, a3), (b0, b1, b2, b3), (c0, c1, c2, c3), (d0, d1, d2, d3)) =
     ((det3 b1 b2 b3 c1 c2 c3 d1 d2 d3, - det3 b0 b2 b3 c0 c2 c3 d0 d2 d3,
       det3 b0 b1 b3 c0 c1 c3 d0 d1 d3, - det3 b0 b1 b2 c0 c1 c2 d0 d1 d2),
      (- det3 a1 a2 a3 c1 c2 c3 d1 d2 d3, det3 a0 a2 a3 c0 c2 c3 d0 d2 d3,
       - det3 a0 a1 a3 c0 c1 c3 d0 d1 d3, det3 a0 a1 a2 c0 c1 c2 d0 d1 d2),
      (det3 a1 a2 a3 b1 b2 b3 d1 d2 d3, - det3 a0 a2 a3 b0 b2 b3 d0 d2 d3,
       det3 a0 a1 a3 b0 b1 b3 d0 d1 d3, - det3 a0 a1 a2 b0 b1 b2 d0 d1 d2),
      (- det3 a1 a2 a3 b1 b2 b3 c1 c2 c3, det3 a0 a2 a3 b0 b2 b3 c0 c2 c3,
       - det3 a0 a1 a3 b0 b1 b3 c0 c1 c3, det3 a0 a1 a2 b0 b1 b2 c0 c1 c2))"

fun det4 :: "mat4 \<Rightarrow> real" where
  "det4 (r0, r1, r2, r3) = (case cof4 (r0, r1, r2, r3) of (k0, _) \<Rightarrow> dot4 r0 k0)"

fun scalev4 :: "real \<Rightarrow> vec4 \<Rightarrow> vec4" where
  "scalev4 k (a, b, c, d) = (k * a, k * b, k * c, k * d)"

fun scale4 :: "real \<Rightarrow> mat4 \<Rightarrow> mat4" where
  "scale4 k (r0, r1, r2, r3) = (scalev4 k r0, scalev4 k r1, scalev4 k r2, scalev4 k r3)"

definition adj4 :: "mat4 \<Rightarrow> mat4" where
  "adj4 M = transpose4 (cof4 M)"

text \<open>
  \<open>torch.linalg.inv\<close> on one matrix, read exactly: the inverse when the matrix has
  one (here by the adjugate), the library's \<open>LinAlgError\<close> when it is singular.
\<close>

definition inv4 :: "mat4 \<Rightarrow> error + mat4" where
  "inv4 M = (if det4 M = 0 then Inl LinAlgError else Inr (scale4 (1 / det4 M) (adj4 M)))"

fun sequence_err :: "(error + 'a) list \<Rightarrow> error + 'a list" where
  "sequence_err [] = Inr []"
| "sequence_err (Inl e # _) = Inl e"
| "sequence_err (Inr x # rs) = (case sequence_err rs of Inl e \<Rightarrow> Inl e | Inr xs \<Rightarrow> Inr (x # xs))"

text \<open>The batched inverse raises when any matrix of the batch is singular.\<close>

definition linalg_inv :: "mat4 list \<Rightarrow> error + mat4 list" where
  "linalg_inv Ms = sequence_err (map inv4 Ms)"

definition then_err :: "error + 'a \<Rightarrow> ('a \<Rightarrow> error + 'b) \<Rightarrow> error + 'b" where
  "then_err r f = (case r of Inl e \<Rightarrow> Inl e | Inr x \<Rightarrow> f x)"

section \<open>The camera batch (\<^verbatim>\<open>internal/cameras/cameras.py\<close>)\<close>

record Cameras =
  R :: "mat3 list"
  T :: "vec3 list"
  fx :: "real list"
  fy :: "real list"
  fov_x :: "real list"
  fov_y :: "real list"
  cx :: "real list"
  cy :: "real list"
  width :: "real list"
  height :: "real list"
  appearance_embedding :: "real list"
  distortion_params :: "real list list option"
  camera_type :: "int list"
  world_to_camera :: "mat4 list"
  projection :: "mat4 list"
  full_projection :: "mat4 list"
  camera_center :: "vec3 list"

text \<open>\<open>_calculate_fov\<close>: \<open>2 * atan((width / 2) / fx)\<close>, and the same for y.\<close>

definition calculate_fov :: "Cameras \<Rightarrow> error + Cameras" where
  "calculate_fov c =
     then_err (broadcast2 (DimensionMismatch FovStage) (\<lambda>w f. w / f) (map (\<lambda>w. w / 2) (width c)) (fx c)) (\<lambda>qx.
     then_err (broadcast2 (DimensionMismatch FovStage) (\<lambda>h f. h / f) (map (\<lambda>h. h / 2) (height c)) (fy c)) (\<lambda>qy.
     Inr (c\<lparr>fov_x := map (\<lambda>q. 2 * arctan q) qx, fov_y := map (\<lambda>q. 2 * arctan q) qy\<rparr>)))"

text \<open>The slice assignments of \<open>_calculate_w2c\<close> on one matrix.\<close>

fun set_rot :: "mat4 \<Rightarrow> mat3 \<Rightarrow> mat4" where
  "set_rot ((a0, a1, a2, a3), (b0, b1, b2, b3), (c0, c1, c2, c3), r3)
           ((r00, r01, r02), (r10, r11, r12), (r20, r21, r22)) =
     ((r00, r01, r02, a3), (r10, r11, r12, b3), (r20, r21, r22, c3), r3)"

fun set_trans :: "mat4 \<Rightarrow> vec3 \<Rightarrow> mat4" where
  "set_trans ((a0, a1, a2, a3), (b0, b1, b2, b3), (c0, c1, c2, c3), r3) (t0, t1, t2) =
     ((a0, a1, a2, t0), (b0, b1, b2, t1), (c0, c1, c2, t2), r3)"

text \<open>\<open>Ms[:, i, j] = vs\<close> with a tensor value, and with a scalar value.\<close>

definition assign_entry ::
  "error \<Rightarrow> mat4 list \<Rightarrow> nat \<Rightarrow> nat \<Rightarrow> real list \<Rightarrow> error + mat4 list" where
  "assign_entry err Ms i j vs =
     then_err (expand_to err (length Ms) vs) (\<lambda>vs'. Inr (map2 (\<lambda>M v. upd4 M i j v) Ms vs'))"

definition assign_scalar :: "mat4 list \<Rightarrow> nat \<Rightarrow> nat \<Rightarrow> real \<Rightarrow> mat4 list" where
  "assign_scalar Ms i j v = map (\<lambda>M. upd4 M i j v) Ms"

text \<open>
  \<open>_calculate_w2c\<close>: zeros of batch size \<open>R.shape[0]\<close>, R into the top-left 3x3
  block, T into the last column, 1 into the corner, then the transpose of the last
  two axes.
\<close>

definition calculate_w2c :: "Cameras \<Rightarrow> error + Cameras" where
  "calculate_w2c c =
     (let w0 = replicate (length (R c)) zeros4;
          w1 = map2 set_rot w0 (R c)
      in then_err (expand_to (DimensionMismatch W2cStage) (length w1) (T c)) (\<lambda>Ts.
           let w2 = map2 set_trans w1 Ts;
               w3 = assign_scalar w2 3 3 1
           in Inr (c\<lparr>world_to_camera := map transpose4 w3\<rparr>)))"

definition zfar :: real where "zfar = 100"
definition znear :: real where "znear = 1 / 100"
definition z_sign :: real where "z_sign = 1"

text \<open>
  \<open>_calculate_ndc_projection_matrix\<close>: P has the batch size of \<open>fov_y\<close>; the
  projection is its transpose, and the combined matrix is
  \<open>world_to_camera.bmm(projection)\<close>.
\<close>

definition calculate_ndc_projection_matrix :: "Cameras \<Rightarrow> error + Cameras" where
  "calculate_ndc_projection_matrix c =
     (let tanHalfFovY = map (\<lambda>a. tan (a / 2)) (fov_y c);
          tanHalfFovX = map (\<lambda>a. tan (a / 2)) (fov_x c);
          top = map (\<lambda>t. t * znear) tanHalfFovY;
          bottom = map uminus top;
          right = map (\<lambda>t. t * znear) tanHalfFovX;
          left = map uminus right;
          P0 = replicate (length (fov_y c)) zeros4
      in
      then_err (assign_entry (DimensionMismatch ProjectionStage) P0 0 0
                  (map2 (\<lambda>r l. 2 * znear / (r - l)) right left)) (\<lambda>P1.
      then_err (assign_entry (DimensionMismatch ProjectionStage) P1 1 1
                  (map2 (\<lambda>t b. 2 * znear / (t - b)) top bottom)) (\<lambda>P2.
      then_err (assign_entry (DimensionMismatch ProjectionStage) P2 0 2
                  (map2 (\<lambda>r l. (r + l) / (r - l)) right left)) (\<lambda>P3.
      then_err (assign_entry (DimensionMismatch ProjectionStage) P3 1 2
                  (map2 (\<lambda>t b. (t + b) / (t - b)) top bottom)) (\<lambda>P4.
      let P5 = assign_scalar P4 3 2 z_sign;
          P6 = assign_scalar P5 2 2 (z_sign * zfar / (zfar - znear));
          P7 = assign_scalar P6 2 3 (- (zfar * znear) / (zfar - znear));
          c1 = c\<lparr>projection := map transpose4 P7\<rparr>
      in then_err (bmm (world_to_camera c1) (projection c1)) (\<lambda>F.
           Inr (c1\<lparr>full_projection := F\<rparr>)))))))"

text \<open>\<open>_calculate_camera_center\<close>: \<open>torch.linalg.inv(world_to_camera)[:, 3, :3]\<close>.\<close>

fun translation_row :: "mat4 \<Rightarrow> vec3" where
  "translation_row (r0, r1, r2, (d0, d1, d2, d3)) = (d0, d1, d2)"

definition calculate_camera_center :: "Cameras \<Rightarrow> error + Cameras" where
  "calculate_camera_center c =
     then_err (linalg_inv (world_to_camera c)) (\<lambda>Ns.
       Inr (c\<lparr>camera_center := map translation_row Ns\<rparr>))"

definition post_init :: "Cameras \<Rightarrow> error + Cameras" where
  "post_init c =
     then_err (calculate_fov c) (\<lambda>c1.
     then_err (calculate_w2c c1) (\<lambda>c2.
     then_err (calculate_ndc_projection_matrix c2) (\<lambda>c3.
     then_err (calculate_camera_center c3) (\<lambda>c4.
       Inr (if distortion_params c4 = None
            then c4\<lparr>distortion_params := Some (replicate (length (R c4)) (replicate 6 0))\<rparr>
            else c4)))))"

text \<open>
  The constructor the dataclass generates: the eleven arguments are stored, the derived
  fields (\<open>init=False\<close>) hold nothing yet, and \<open>__post_init__\<close> runs.
\<close>

definition Cameras_init ::
  "mat3 list \<Rightarrow> vec3 list \<Rightarrow> real list \<Rightarrow> real list \<Rightarrow> real list \<Rightarrow> real list \<Rightarrow> real list \<Rightarrow>
   real list \<Rightarrow> real list \<Rightarrow> real list list option \<Rightarrow> int list \<Rightarrow> error + Cameras" where
  "Cameras_init R' T' fx' fy' cx' cy' width' height' appearance_embedding' distortion_params'
       camera_type' =
     post_init \<lparr>R = R', T = T', fx = fx', fy = fy', fov_x = [], fov_y = [], cx = cx', cy = cy',
       width = width', height = height', appearance_embedding = appearance_embedding',
       distortion_params = distortion_params', camera_type = camera_type',
       world_to_camera = [], projection = [], full_projection = [], camera_center = []\<rparr>"

subsection \<open>Notions the camera claims are stated with\<close>

text \<open>The entry of camera \<open>i\<close> in a batch array, a length-1 array being broadcast.\<close>

definition bget :: "'a list \<Rightarrow> nat \<Rightarrow> 'a" where
  "bget xs i = (if length xs = 1 then hd xs else xs ! i)"

text \<open>
  The pose matrix in the words of the specification: R in the top-left 3x3 block, T in
  the top-right column, bottom row \<open>[0, 0, 0, 1]\<close>.
\<close>

fun pose4 :: "mat3 \<Rightarrow> vec3 \<Rightarrow> mat4" where
  "pose4 ((r00, r01, r02), (r10, r11, r12), (r20, r21, r22)) (t0, t1, t2) =
     ((r00, r01, r02, t0), (r10, r11, r12, t1), (r20, r21, r22, t2), (0, 0, 0, 1))"

text \<open>
  The focal length reconstructed from a field of view and an image dimension, in the
  words of the specification: \<open>(dimension / 2) / tan (fov / 2)\<close>.
\<close>

definition focal_from_fov :: "real \<Rightarrow> real \<Rightarrow> real" where
  "focal_from_fov fov dimension = (dimension / 2) / tan (fov / 2)"

text \<open>
  Which lengths an elementwise operation accepts, and the length of its result.
\<close>

definition broadcastable :: "nat \<Rightarrow> nat \<Rightarrow> bool" where
  "broadcastable a b \<longleftrightarrow> a = b \<or> a = 1 \<or> b = 1"

definition broadcast_len :: "nat \<Rightarrow> nat \<Rightarrow> nat" where
  "broadcast_len a b = (if a = 1 then b else a)"

section \<open>The appearance-embedding renderer
  (\<^verbatim>\<open>internal/renderers/gsplat_appearance_embedding_renderer.py\<close>)\<close>

subsection \<open>Configuration\<close>

record ModelConfig =
  n_gaussian_feature_dims :: int
  n_appearances :: int
  n_appearance_embedding_dims :: int
  is_view_dependent :: bool
  n_view_direction_frequencies :: int
  n_neurons :: int
  n_layers :: int
  skip_layers :: "int list"
  normalize_cfg :: bool
  tcnn :: bool

record OptimizationConfig =
  gamma_eps :: real
  embedding_lr_init :: real
  embedding_lr_final_factor :: real
  lr_init :: real
  lr_final_factor :: real
  eps :: real
  max_steps :: int
  warm_up :: int

record GSplatAppearanceEmbeddingRenderer =
  separate_sh :: bool
  model :: ModelConfig
  optimization :: OptimizationConfig

text \<open>The default values of the three dataclasses.\<close>

definition ModelConfig_default :: ModelConfig where
  "ModelConfig_default =
     \<lparr>n_gaussian_feature_dims = 64, n_appearances = - 1, n_appearance_embedding_dims = 32,
      is_view_dependent = False, n_view_direction_frequencies = 4, n_neurons = 64,
      n_layers = 3, skip_layers = [], normalize_cfg = False, tcnn = False\<rparr>"

definition OptimizationConfig_default :: OptimizationConfig where
  "OptimizationConfig_default =
     \<lparr>gamma_eps = 1 / 10 ^ 6, embedding_lr_init = 2 / 1000, embedding_lr_final_factor = 1 / 10,
      lr_init = 1 / 1000, lr_final_factor = 1 / 10, eps = 1 / 10 ^ 15, max_steps = 30000,
      warm_up = 4000\<rparr>"

definition GSplatAppearanceEmbeddingRenderer_default :: GSplatAppearanceEmbeddingRenderer where
  "GSplatAppearanceEmbeddingRenderer_default =
     \<lparr>separate_sh = True, model = ModelConfig_default,
      optimization = OptimizationConfig_default\<rparr>"

subsection \<open>External collaborators\<close>

text \<open>
  The spherical-harmonics kernels, the network factory, the positional encoding and
  the initialiser of an embedding table are not code of this file; they are parameters
  of the model. Spherical-harmonics coefficients are one block of rows per primitive.
\<close>

record externals =
  spherical_harmonics ::
    "int \<Rightarrow> vec3 list \<Rightarrow> real list list list \<Rightarrow> bool list option \<Rightarrow> vec3 list"
  spherical_harmonics_decomposed ::
    "int \<Rightarrow> vec3 list \<Rightarrow> real list list list \<Rightarrow> real list list list \<Rightarrow> bool list option
       \<Rightarrow> vec3 list"
  get_network_with_skip_layers ::
    "bool \<Rightarrow> int \<Rightarrow> int \<Rightarrow> int \<Rightarrow> int \<Rightarrow> int list \<Rightarrow> real list list \<Rightarrow> vec3 list"
  positional_encoding :: "int \<Rightarrow> vec3 list \<Rightarrow> real list list"
  get_output_n_channels :: "int \<Rightarrow> int"
  embedding_init :: "nat \<Rightarrow> nat \<Rightarrow> real list list"

subsection \<open>The appearance model\<close>

record Embedding =
  num_embeddings :: int
  embedding_dim :: int
  weight :: "real list list"

record Model =
  model_config :: ModelConfig
  embedding :: Embedding
  view_direction_encoding :: "(vec3 list \<Rightarrow> real list list) option"
  network :: "real list list \<Rightarrow> vec3 list"

text \<open>\<open>nn.Embedding(num_embeddings, embedding_dim)\<close>: a negative size is refused.\<close>

definition new_Embedding :: "externals \<Rightarrow> int \<Rightarrow> int \<Rightarrow> error + Embedding" where
  "new_Embedding ext n d =
     (if n < 0 \<or> d < 0 then Inl ShapeError
      else Inr \<lparr>num_embeddings = n, embedding_dim = d,
                weight = embedding_init ext (nat n) (nat d)\<rparr>)"

text \<open>\<open>Model.__init__\<close> with \<open>Model._setup\<close>: the table has \<open>config.n_appearances\<close> rows.\<close>

definition new_Model :: "externals \<Rightarrow> ModelConfig \<Rightarrow> error + Model" where
  "new_Model ext cfg =
     then_err (new_Embedding ext (n_appearances cfg) (n_appearance_embedding_dims cfg)) (\<lambda>emb.
       let n_input_dims = n_gaussian_feature_dims cfg + n_appearance_embedding_dims cfg;
           enc = (if is_view_dependent cfg
                  then Some (positional_encoding ext (n_view_direction_frequencies cfg))
                  else None);
           n_input_dims = (if is_view_dependent cfg
                  then n_input_dims + get_output_n_channels ext (n_view_direction_frequencies cfg)
                  else n_input_dims)
       in Inr \<lparr>model_config = cfg, embedding = emb, view_direction_encoding = enc,
                network = get_network_with_skip_layers ext (tcnn cfg) n_input_dims 3
                  (n_layers cfg) (n_neurons cfg) (skip_layers cfg)\<rparr>)"

text \<open>\<open>torch.nn.functional.normalize(x, dim=-1)\<close>: each row over \<open>max(norm, 1e-12)\<close>.\<close>

definition l2_normalize :: "real list \<Rightarrow> real list" where
  "l2_normalize xs =
     (let n = max (sqrt (sum_list (map (\<lambda>x. x * x) xs))) (1 / 10 ^ 12)
      in map (\<lambda>x. x / n) xs)"

fun vmap :: "(real \<Rightarrow> real) \<Rightarrow> vec3 \<Rightarrow> vec3" where
  "vmap f (a, b, c) = (f a, f b, f c)"

fun vzip :: "(real \<Rightarrow> real \<Rightarrow> real) \<Rightarrow> vec3 \<Rightarrow> vec3 \<Rightarrow> vec3" where
  "vzip f (a, b, c) (d, e, g) = (f a d, f b e, f c g)"

fun vnormalize :: "vec3 \<Rightarrow> vec3" where
  "vnormalize (a, b, c) =
     (let n = max (sqrt (a * a + b * b + c * c)) (1 / 10 ^ 12) in (a / n, b / n, c / n))"

text \<open>\<open>torch.concat([A, B], dim=-1)\<close>: the row counts must agree.\<close>

definition concat_last :: "real list list \<Rightarrow> real list list \<Rightarrow> error + real list list" where
  "concat_last A B = (if length A = length B then Inr (map2 (@) A B) else Inl ShapeError)"

text \<open>
  \<open>self.embedding(appearance.reshape((-1,)))\<close>: the row of the table at the identifier;
  an identifier outside the table raises.
\<close>

definition embedding_lookup :: "Embedding \<Rightarrow> int \<Rightarrow> error + real list" where
  "embedding_lookup emb a =
     (if 0 \<le> a \<and> nat a < length (weight emb) then Inr (weight emb ! nat a) else Inl IndexError)"

definition Model_forward ::
  "Model \<Rightarrow> real list list \<Rightarrow> int \<Rightarrow> vec3 list \<Rightarrow> error + vec3 list" where
  "Model_forward m gaussian_features appearance view_dirs =
     then_err (embedding_lookup (embedding m) appearance) (\<lambda>row.
       let appearance_embeddings = replicate (length gaussian_features) row;
           gaussian_features' = (if normalize_cfg (model_config m)
              then map l2_normalize gaussian_features else gaussian_features);
           appearance_embeddings' = (if normalize_cfg (model_config m)
              then map l2_normalize appearance_embeddings else appearance_embeddings)
       in then_err (concat_last gaussian_features' appearance_embeddings') (\<lambda>inp.
            if is_view_dependent (model_config m)
            then (case view_direction_encoding m of
                    None \<Rightarrow> Inl AttributeError
                  | Some enc \<Rightarrow> then_err (concat_last inp (enc view_dirs)) (\<lambda>inp'.
                      Inr (network m inp')))
            else Inr (network m inp)))"

subsection \<open>The renderer module\<close>

text \<open>
  What the module does to its own state is kept as a trace: a write of the table size
  into the configuration, and an allocation of the model with the size it saw.
\<close>

datatype setup_event = SetNAppearances int | AllocateModel int

record GSplatAppearanceEmbeddingRendererModule =
  config :: GSplatAppearanceEmbeddingRenderer
  self_model :: "Model option"
  trace :: "setup_event list"

text \<open>
  The part of the lightning module that \<open>setup\<close> reads:
  \<open>trainer.datamodule.dataparser_outputs.appearance_group_ids\<close>, a dictionary from a
  name to a tuple whose first component is the identifier, or \<open>None\<close>.
\<close>

record LightningModule =
  appearance_group_ids :: "(string \<times> int \<times> real) list option"

text \<open>The loop \<open>for i in appearance_group_ids.values(): if i[0] > max_input_id: ...\<close>.\<close>

fun max_input_id_loop :: "int \<Rightarrow> (int \<times> real) list \<Rightarrow> int" where
  "max_input_id_loop max_input_id [] = max_input_id"
| "max_input_id_loop max_input_id (i # rest) =
     max_input_id_loop (if fst i > max_input_id then fst i else max_input_id) rest"

text \<open>\<open>_setup_model\<close>, and \<open>setup\<close> (named \<open>setup_renderer\<close> here).\<close>

definition setup_model ::
  "externals \<Rightarrow> GSplatAppearanceEmbeddingRendererModule
     \<Rightarrow> error + GSplatAppearanceEmbeddingRendererModule" where
  "setup_model ext self =
     then_err (new_Model ext (model (config self))) (\<lambda>m.
       Inr (self\<lparr>self_model := Some m,
                 trace := trace self @ [AllocateModel (n_appearances (model (config self)))]\<rparr>))"

definition setup_renderer ::
  "externals \<Rightarrow> string \<Rightarrow> LightningModule option \<Rightarrow> GSplatAppearanceEmbeddingRendererModule
     \<Rightarrow> error + GSplatAppearanceEmbeddingRendererModule" where
  "setup_renderer ext stage lightning_module self =
     (case lightning_module of
        None \<Rightarrow> Inr self
      | Some lm \<Rightarrow>
          let self1 =
            (if n_appearances (model (config self)) \<le> 0 then
               let max_input_id =
                     (case appearance_group_ids lm of
                        None \<Rightarrow> 0
                      | Some ids \<Rightarrow> max_input_id_loop 0 (map snd ids));
                   n_appearances' = max_input_id + 1
               in self\<lparr>config := (config self)\<lparr>model :=
                          (model (config self))\<lparr>n_appearances := n_appearances'\<rparr>\<rparr>,
                        trace := trace self @ [SetNAppearances n_appearances']\<rparr>
             else self)
          in setup_model ext self1)"

subsection \<open>Restoring the module from a saved state\<close>

text \<open>
  A saved tensor: its shape and its entries in row-major order. A state dictionary is
  an ordered dictionary from names to tensors.
\<close>

record tensor =
  tensor_shape :: "nat list"
  tensor_data :: "real list"

text \<open>The rows of a tensor of shape \<open>[n, d]\<close>.\<close>

definition table_rows :: "tensor \<Rightarrow> real list list" where
  "table_rows t =
     (case tensor_shape t of
        [n, d] \<Rightarrow> map (\<lambda>i. take d (drop (i * d) (tensor_data t))) [0..<n]
      | _ \<Rightarrow> [])"

text \<open>
  What the module holds beside the embedding table is not code of this file (the
  tensors of the network, of the encoding and of the base renderer): their names and
  shapes for a model configuration, and the network that results when saved tensors
  are copied into a network, are parameters.
\<close>

record module_externals =
  other_state_shapes :: "ModelConfig \<Rightarrow> (string \<times> nat list) list"
  load_network ::
    "(string \<times> tensor) list \<Rightarrow> (real list list \<Rightarrow> vec3 list) \<Rightarrow> real list list \<Rightarrow> vec3 list"

text \<open>The names and shapes of all the tensors of the module with the model \<open>m\<close>.\<close>

definition expected_state :: "module_externals \<Rightarrow> Model \<Rightarrow> (string \<times> nat list) list" where
  "expected_state mext m =
     (''model.embedding.weight'',
        [nat (num_embeddings (embedding m)), nat (embedding_dim (embedding m))])
     # other_state_shapes mext (model_config m)"

text \<open>
  \<open>torch.nn.Module.load_state_dict(state_dict, strict)\<close>, which \<open>super().load_state_dict\<close>
  reaches. A saved tensor of another shape than the tensor of its name is always an
  error; a name of the module that the dictionary lacks, and a name of the dictionary
  that the module lacks, is an error when \<open>strict\<close> holds. Any error raises
  \<open>RuntimeError\<close>; otherwise the saved tensors are copied into the module.
\<close>

definition super_load_state_dict ::
  "module_externals \<Rightarrow> (string \<times> tensor) list \<Rightarrow> bool \<Rightarrow> Model \<Rightarrow> error + Model" where
  "super_load_state_dict mext state_dict strict m =
     (let expected = expected_state mext m;
          missing_keys = filter (\<lambda>k. map_of state_dict k = None) (map fst expected);
          unexpected_keys = filter (\<lambda>k. k \<notin> set (map fst expected)) (map fst state_dict);
          size_mismatch = filter (\<lambda>(k, sh).
              case map_of state_dict k of None \<Rightarrow> False | Some t \<Rightarrow> tensor_shape t \<noteq> sh)
            expected
      in if size_mismatch \<noteq> [] \<or> (strict \<and> (missing_keys \<noteq> [] \<or> unexpected_keys \<noteq> []))
         then Inl RuntimeError
         else Inr (m\<lparr>embedding :=
                       (case map_of state_dict ''model.embedding.weight'' of
                          None \<Rightarrow> embedding m
                        | Some t \<Rightarrow> (embedding m)\<lparr>weight := table_rows t\<rparr>),
                     network := load_network mext state_dict (network m)\<rparr>))"

text \<open>
  \<open>load_state_dict\<close>: the table size is \<open>state_dict["model.embedding.weight"].shape[0]\<close>
  (a missing name and a tensor without dimensions raise), the model is allocated again
  with it, and the base class loads the dictionary.
\<close>

definition load_state_dict ::
  "externals \<Rightarrow> module_externals \<Rightarrow> (string \<times> tensor) list \<Rightarrow> bool
     \<Rightarrow> GSplatAppearanceEmbeddingRendererModule
     \<Rightarrow> error + GSplatAppearanceEmbeddingRendererModule" where
  "load_state_dict ext mext state_dict strict self =
     (case map_of state_dict ''model.embedding.weight'' of
        None \<Rightarrow> Inl KeyError
      | Some t \<Rightarrow>
          (case tensor_shape t of
             [] \<Rightarrow> Inl IndexError
           | n # _ \<Rightarrow>
               let self1 = self\<lparr>config := (config self)\<lparr>model :=
                             (model (config self))\<lparr>n_appearances := int n\<rparr>\<rparr>,
                           trace := trace self @ [SetNAppearances (int n)]\<rparr>
               in then_err (setup_model ext self1) (\<lambda>self2.
                    case self_model self2 of
                      None \<Rightarrow> Inl AttributeError
                    | Some m \<Rightarrow> then_err (super_load_state_dict mext state_dict strict m) (\<lambda>m'.
                        Inr (self2\<lparr>self_model := Some m'\<rparr>)))))"

subsection \<open>Boolean-mask indexing\<close>

text \<open>\<open>x[mask]\<close>: the rows where the mask holds; the mask must have the length of x.\<close>

definition mask_select :: "bool list \<Rightarrow> 'a list \<Rightarrow> error + 'a list" where
  "mask_select bmask xs =
     (if length bmask = length xs then Inr (map snd (filter fst (zip bmask xs)))
      else Inl IndexError)"

fun scatter :: "bool list \<Rightarrow> 'a list \<Rightarrow> 'a list \<Rightarrow> 'a list" where
  "scatter (m # ms) (x # xs) vs =
     (if m then (case vs of [] \<Rightarrow> x # scatter ms xs [] | v # vs' \<Rightarrow> v # scatter ms xs vs')
      else x # scatter ms xs vs)"
| "scatter _ xs _ = xs"

text \<open>
  \<open>x[mask] = values\<close>: the values go, in order, to the rows where the mask holds; there
  must be as many values as such rows, or a single one, which is broadcast.
\<close>

definition mask_assign :: "bool list \<Rightarrow> 'a list \<Rightarrow> 'a list \<Rightarrow> error + 'a list" where
  "mask_assign bmask xs vs =
     (if length bmask \<noteq> length xs then Inl IndexError
      else let k = length (filter id bmask)
           in if length vs = k then Inr (scatter bmask xs vs)
              else if length vs = 1 then Inr (scatter bmask xs (replicate k (hd vs)))
              else Inl ShapeError)"

subsection \<open>Colours of the primitives\<close>

record GaussianModel =
  get_xyz :: "vec3 list"
  is_pre_activated :: bool
  active_sh_degree :: int
  get_shs :: "real list list list"
  get_shs_dc :: "real list list list"
  get_shs_rest :: "real list list list"
  get_appearance_features :: "real list list"

definition n_gaussians :: "GaussianModel \<Rightarrow> nat" where
  "n_gaussians pc = length (get_xyz pc)"

text \<open>What \<open>get_rgbs\<close> reads of the viewpoint camera.\<close>

record ViewpointCamera =
  viewpoint_camera_center :: vec3
  appearance_id :: int

text \<open>One invocation of the appearance model, with its three arguments.\<close>

datatype model_call = ModelCall "real list list" int "vec3 list"

definition sh :: "externals \<Rightarrow> GaussianModel \<Rightarrow> vec3 list \<Rightarrow> bool list option \<Rightarrow> vec3 list" where
  "sh ext pc dirs bmask =
     (if is_pre_activated pc
      then spherical_harmonics ext (active_sh_degree pc) dirs (get_shs pc) bmask
      else spherical_harmonics_decomposed ext (active_sh_degree pc) dirs
             (get_shs_dc pc) (get_shs_rest pc) bmask)"

definition selective_sh ::
  "externals \<Rightarrow> GaussianModel \<Rightarrow> vec3 list \<Rightarrow> bool list \<Rightarrow> error + vec3 list" where
  "selective_sh ext pc dirs bmask =
     (if is_pre_activated pc
      then then_err (mask_select bmask (get_shs pc)) (\<lambda>shs.
             Inr (spherical_harmonics ext (active_sh_degree pc) dirs shs None))
      else then_err (mask_select bmask (get_shs_dc pc)) (\<lambda>dc.
           then_err (mask_select bmask (get_shs_rest pc)) (\<lambda>coeffs.
             Inr (spherical_harmonics_decomposed ext (active_sh_degree pc) dirs dc coeffs None))))"

text \<open>
  \<open>get_rgbs\<close>. The keyword arguments are reduced to the one the function reads,
  \<open>warm_up\<close>, absent (\<open>None\<close>) or given. The result carries, beside the colours, the
  invocations of the appearance model the call made.
\<close>

definition get_rgbs ::
  "externals \<Rightarrow> GSplatAppearanceEmbeddingRendererModule \<Rightarrow> ViewpointCamera \<Rightarrow> GaussianModel
     \<Rightarrow> 'p \<Rightarrow> bool list \<Rightarrow> bool option \<Rightarrow> error + vec3 list \<times> model_call list" where
  "get_rgbs ext self viewpoint_camera pc projections visibility_filter kwargs_warm_up =
     (if (case kwargs_warm_up of None \<Rightarrow> False | Some w \<Rightarrow> w) then
        Inr (map (vmap (\<lambda>x. max x 0))
               (map (vmap (\<lambda>x. x + 1 / 2))
                  (sh ext pc
                     (map (\<lambda>p. vzip (-) p (viewpoint_camera_center viewpoint_camera)) (get_xyz pc))
                     (Some visibility_filter))),
             [])
      else
        then_err (mask_select visibility_filter (get_xyz pc)) (\<lambda>detached_xyz.
        let view_directions =
              map (\<lambda>p. vzip (-) p (viewpoint_camera_center viewpoint_camera)) detached_xyz;
            view_directions = map vnormalize view_directions
        in
        then_err (selective_sh ext pc view_directions visibility_filter) (\<lambda>colours.
        let base_rgbs = map (vmap (\<lambda>x. x + 1 / 2)) colours in
        then_err (mask_select visibility_filter (get_appearance_features pc)) (\<lambda>features.
        case self_model self of
          None \<Rightarrow> Inl AttributeError
        | Some m \<Rightarrow>
        then_err (Model_forward m features (appearance_id viewpoint_camera) view_directions)
          (\<lambda>out.
        let rgb_offsets = map (vmap (\<lambda>y. y * 2 - 1)) out in
        then_err (broadcast2 ShapeError (vzip (+)) base_rgbs rgb_offsets) (\<lambda>summed.
        then_err (mask_assign visibility_filter (replicate (n_gaussians pc) (0, 0, 0))
                    (map (vmap (\<lambda>x. min (max x 0) 1)) summed)) (\<lambda>rgbs.
        Inr (rgbs,
             [ModelCall features (appearance_id viewpoint_camera) view_directions]))))))))"

text \<open>
  Modelled from the spec: \<open>GSplatV1RendererModule.forward\<close> (\<^verbatim>\<open>gsplat_v1_renderer.py\<close>)
  is not among the source files. The render step takes the \<open>warm_up\<close> flag and computes
  the colours with it; of \<open>forward\<close> only this is kept: it calls \<open>get_rgbs\<close> with the
  keyword arguments it was given, the projections and the visibility filter of the
  rasterizer being arguments here.
\<close>

definition forward ::
  "externals \<Rightarrow> GSplatAppearanceEmbeddingRendererModule \<Rightarrow> ViewpointCamera \<Rightarrow> GaussianModel
     \<Rightarrow> 'p \<Rightarrow> bool list \<Rightarrow> bool option \<Rightarrow> error + vec3 list \<times> model_call list" where
  "forward ext self viewpoint_camera pc projections visibility_filter kwargs_warm_up =
     get_rgbs ext self viewpoint_camera pc projections visibility_filter kwargs_warm_up"

text \<open>\<open>training_forward\<close>: \<open>warm_up = step < self.config.optimization.warm_up\<close>.\<close>

definition training_forward ::
  "externals \<Rightarrow> GSplatAppearanceEmbeddingRendererModule \<Rightarrow> int \<Rightarrow> ViewpointCamera
     \<Rightarrow> GaussianModel \<Rightarrow> 'p \<Rightarrow> bool list \<Rightarrow> error + vec3 list \<times> model_call list" where
  "training_forward ext self step viewpoint_camera pc projections visibility_filter =
     forward ext self viewpoint_camera pc projections visibility_filter
       (Some (step < warm_up (optimization (config self))))"

subsection \<open>Optimizers and schedules\<close>

text \<open>Python's \<open>a / b\<close> on integers, and \<open>x ** y\<close> on a float base.\<close>

definition py_truediv :: "int \<Rightarrow> int \<Rightarrow> error + real" where
  "py_truediv a b = (if b = 0 then Inl ZeroDivisionError else Inr (of_int a / of_int b))"

text \<open>
  A positive base has its real power. Otherwise: anything to the power 0 is 1; 0 to a
  positive power is 0 and to a negative one raises; a negative base has a real power
  for an integral exponent only, and a complex one, outside this model, else.
\<close>

definition float_pow :: "real \<Rightarrow> real \<Rightarrow> error + real" where
  "float_pow b e =
     (if 0 < b then Inr (b powr e)
      else if e = 0 then Inr 1
      else if b = 0 then (if 0 < e then Inr 0 else Inl ZeroDivisionError)
      else if e = of_int \<lfloor>e\<rfloor>
        then Inr (if 0 \<le> e then b ^ nat \<lfloor>e\<rfloor> else 1 / b ^ nat \<lfloor>- e\<rfloor>)
      else Inl ComplexResult)"

text \<open>
  The parameters handed to an optimizer: those of the embedding table (its weight), or
  those of the network, which is external and stands for them.
\<close>

datatype parameters =
    EmbeddingParameters "real list list"
  | NetworkParameters "real list list \<Rightarrow> vec3 list"

record Adam =
  adam_params :: parameters
  adam_name :: string
  adam_lr :: real
  adam_eps :: real

record LambdaLR =
  base_lr :: real
  lr_lambda :: "int \<Rightarrow> error + real"

text \<open>
  \<open>torch.optim.lr_scheduler.LambdaLR\<close>: after \<open>t\<close> steps of the scheduler the rate of
  the group is its initial rate times \<open>lr_lambda(t)\<close>.
\<close>

definition scheduler_lr :: "LambdaLR \<Rightarrow> int \<Rightarrow> error + real" where
  "scheduler_lr s t = then_err (lr_lambda s t) (\<lambda>factor. Inr (base_lr s * factor))"

definition create_optimizer_and_scheduler ::
  "parameters \<Rightarrow> string \<Rightarrow> real \<Rightarrow> real \<Rightarrow> int \<Rightarrow> real \<Rightarrow> int \<Rightarrow> Adam \<times> LambdaLR" where
  "create_optimizer_and_scheduler params' name' lr_init' lr_final_factor' max_steps' eps'
       warm_up' =
     (\<lparr>adam_params = params', adam_name = name', adam_lr = lr_init', adam_eps = eps'\<rparr>,
      \<lparr>base_lr = lr_init',
       lr_lambda = (\<lambda>iter.
         then_err (py_truediv (max (iter - warm_up') 0) max_steps') (\<lambda>q.
           float_pow lr_final_factor' (min q 1)))\<rparr>)"

text \<open>
  \<open>training_setup\<close>. It reads \<open>self.model\<close>, which is there only after the model was
  set up. Both calls pass \<open>self.config.optimization.lr_final_factor\<close>.
\<close>

definition training_setup ::
  "GSplatAppearanceEmbeddingRendererModule \<Rightarrow> error + Adam list \<times> LambdaLR list" where
  "training_setup self =
     (case self_model self of
        None \<Rightarrow> Inl AttributeError
      | Some m \<Rightarrow>
          let opt = optimization (config self);
              (embedding_optimizer, embedding_scheduler) =
                 create_optimizer_and_scheduler (EmbeddingParameters (weight (embedding m)))
                   ''embedding'' (embedding_lr_init opt)
                   (lr_final_factor opt) (max_steps opt) (eps opt) (warm_up opt);
              (network_optimizer, network_scheduler) =
                 create_optimizer_and_scheduler (NetworkParameters (network m))
                   ''embedding_network'' (lr_init opt)
                   (lr_final_factor opt) (max_steps opt) (eps opt) (warm_up opt)
          in Inr ([embedding_optimizer, network_optimizer],
                  [embedding_scheduler, network_scheduler]))"

subsection \<open>Notions the renderer claims are stated with\<close>

text \<open>The clamp of the specification's schedule formula.\<close>

definition clamp :: "real \<Rightarrow> real \<Rightarrow> real \<Rightarrow> real" where
  "clamp x lo hi = max lo (min x hi)"

text \<open>
  The rate of a group in the words of the specification:
  \<open>lr_init * final_factor ^ clamp ((t - warmup) / max_steps, 0, 1)\<close>, with the initial
  rate and the final factor of that group.
\<close>

definition scheduled_rate :: "real \<Rightarrow> real \<Rightarrow> int \<Rightarrow> int \<Rightarrow> int \<Rightarrow> real" where
  "scheduled_rate lr_init' final_factor warmup max_steps' t =
     lr_init' * final_factor powr clamp (of_int (t - warmup) / of_int max_steps') 0 1"

text \<open>
  The appearance identifiers observed in the training data, and their maximum in the
  words of the specification: 0 when there is none.
\<close>

definition observed_ids :: "LightningModule \<Rightarrow> int list" where
  "observed_ids lm =
     (case appearance_group_ids lm of None \<Rightarrow> [] | Some ids \<Rightarrow> map (\<lambda>kv. fst (snd kv)) ids)"

definition max_id :: "int list \<Rightarrow> int" where
  "max_id ids = (if ids = [] then 0 else Max (set ids))"

section \<open>The training step (\<^verbatim>\<open>internal/gaussian_splatting.py\<close>)\<close>

subsection \<open>Loss\<close>

text \<open>
  An image is the list of its values, a pixel mask a list of booleans of the same
  layout. The mean of an empty tensor is not a number: \<open>None\<close>.
\<close>

definition tensor_mean :: "real list \<Rightarrow> real option" where
  "tensor_mean xs = (if xs = [] then None else Some (sum_list xs / real (length xs)))"

record loss_terms =
  gt_image_used :: "real list"
  l1_loss :: "real option"
  ssim_metric :: real
  loss :: "real option"

text \<open>
  The loss of \<open>training_step\<close>; \<open>ssim\<close> is the external metric, \<open>render\<close> is
  \<open>outputs["render"]\<close>, which is also \<open>image\<close>.
\<close>

definition training_loss ::
  "(real list \<Rightarrow> real list \<Rightarrow> real) \<Rightarrow> real \<Rightarrow> real list \<Rightarrow> real list \<Rightarrow> bool list option
     \<Rightarrow> error + loss_terms" where
  "training_loss ssim lambda_dssim render gt_image masked_pixels =
     then_err (case masked_pixels of
                 None \<Rightarrow> Inr gt_image
               | Some bmask \<Rightarrow> then_err (mask_select bmask render) (\<lambda>vals.
                   mask_assign bmask gt_image vals)) (\<lambda>gt_image'.
     then_err (broadcast2 ShapeError (\<lambda>a b. a - b) render gt_image') (\<lambda>diff.
       let l1 = tensor_mean (map abs diff);
           ssim_m = ssim render gt_image'
       in Inr \<lparr>gt_image_used = gt_image', l1_loss = l1, ssim_metric = ssim_m,
                loss = map_option (\<lambda>l. (1 - lambda_dssim) * l + lambda_dssim * (1 - ssim_m)) l1\<rparr>))"

subsection \<open>Density control\<close>

record OptimizationParams =
  densify_from_iter :: int
  densify_until_iter :: int
  densification_interval :: int
  opacity_reset_interval :: int
  densify_grad_threshold :: real

text \<open>The calls the step makes on the Gaussian model, in order.\<close>

datatype gaussian_call =
    UpdateMaxRadii2D
  | AddDensificationStats
  | DensifyAndPrune real real real "int option"
  | ResetOpacity

definition py_mod :: "int \<Rightarrow> int \<Rightarrow> error + int" where
  "py_mod a b = (if b = 0 then Inl ZeroDivisionError else Inr (a mod b))"

text \<open>
  The block under \<open>torch.no_grad()\<close> of \<open>training_step\<close>, with
  \<open>global_step = self.trainer.global_step + 1\<close>. An \<open>and\<close> evaluates its right side
  only when the left holds, an \<open>or\<close> only when the left fails.
\<close>

definition densification ::
  "OptimizationParams \<Rightarrow> real \<times> real \<times> real \<Rightarrow> real \<Rightarrow> int \<Rightarrow> error + gaussian_call list" where
  "densification opt background_color cameras_extent trainer_global_step =
     (let global_step = trainer_global_step + 1 in
      if global_step < densify_until_iter opt then
        then_err (if global_step > densify_from_iter opt
                  then then_err (py_mod global_step (densification_interval opt)) (\<lambda>r. Inr (r = 0))
                  else Inr False) (\<lambda>densify.
        let size_threshold =
              (if global_step > opacity_reset_interval opt then Some 20 else None);
            calls = [UpdateMaxRadii2D, AddDensificationStats] @
              (if densify
               then [DensifyAndPrune (densify_grad_threshold opt) (5 / 1000) cameras_extent
                       size_threshold]
               else [])
        in
        then_err (py_mod global_step (opacity_reset_interval opt)) (\<lambda>r.
          Inr (calls @
            (if r = 0 \<or> (background_color = (1, 1, 1) \<and> global_step = densify_from_iter opt)
             then [ResetOpacity] else []))))
      else Inr [])"

text \<open>
  The most recent opacity-reset boundary in the words of the specification: the largest
  multiple of the reset interval that does not exceed the step.
\<close>

definition recent_reset_boundary :: "int \<Rightarrow> int \<Rightarrow> int" where
  "recent_reset_boundary interval step = (step div interval) * interval"

section \<open>The COLMAP data parser
  (\<^verbatim>\<open>internal/dataparsers/colmap_dataparser.py\<close>)\<close>

text \<open>
  The loop \<open>for i in range(len(image_name_list))\<close> of the split, with its two lists.
\<close>

fun split_loop :: "int \<Rightarrow> nat list \<Rightarrow> nat list \<Rightarrow> nat list \<Rightarrow> nat list \<times> nat list" where
  "split_loop eval_step [] training_set_indices validation_set_indices =
     (training_set_indices, validation_set_indices)"
| "split_loop eval_step (i # rest) training_set_indices validation_set_indices =
     (if int i mod eval_step = 0
      then split_loop eval_step rest training_set_indices (validation_set_indices @ [i])
      else split_loop eval_step rest (training_set_indices @ [i]) validation_set_indices)"

definition build_split_indices :: "int \<Rightarrow> nat \<Rightarrow> nat list \<times> nat list" where
  "build_split_indices eval_step n =
     (if eval_step > 1 then split_loop eval_step [0..<n] [] []
      else ([0..<n], [0]))"

text \<open>\<open>[xs[i] for i in index_list]\<close>: an index outside the list raises.\<close>

fun index_all :: "'a list \<Rightarrow> nat list \<Rightarrow> error + 'a list" where
  "index_all xs [] = Inr []"
| "index_all xs (i # rest) =
     (if i < length xs
      then then_err (index_all xs rest) (\<lambda>ys. Inr (xs ! i # ys))
      else Inl IndexError)"

text \<open>
  Of an \<open>ImageSet\<close> the names are kept, and beside them the indices they were taken at.
\<close>

record ImageSet =
  image_indices :: "nat list"
  image_names :: "string list"

text \<open>
  The split of \<open>get_outputs\<close>, on the list of image names in enumeration order. With no
  image at all \<open>np.stack\<close> has already raised on the empty list of rotations. The
  cameras, paths and masks of a set are taken at the same indices as its names.
\<close>

definition get_outputs_split :: "string list \<Rightarrow> int \<Rightarrow> error + ImageSet \<times> ImageSet" where
  "get_outputs_split image_name_list eval_step =
     (if image_name_list = [] then Inl ValueError
      else case build_split_indices eval_step (length image_name_list) of
        (training_set_indices, validation_set_indices) \<Rightarrow>
          then_err (index_all image_name_list training_set_indices) (\<lambda>train_names.
          then_err (index_all image_name_list validation_set_indices) (\<lambda>val_names.
            Inr (\<lparr>image_indices = training_set_indices, image_names = train_names\<rparr>,
                 \<lparr>image_indices = validation_set_indices, image_names = val_names\<rparr>))))"

section \<open>Boolean-mask indexing: selecting and assigning\<close>

lemma length_scatter: "length (scatter ms xs vs) = length xs"
  by (induction ms xs vs rule: scatter.induct) (auto split: list.splits)

lemma length_selected:
  "length ms = length ys \<Longrightarrow> length (filter fst (zip ms ys)) = length (filter id ms)"
proof (induction ms arbitrary: ys)
  case Nil
  then show ?case by simp
next
  case (Cons m ms)
  then obtain y ys' where "ys = y # ys'" by (cases ys) auto
  with Cons show ?case by simp
qed

lemma scatter_nth_unmasked:
  assumes "length ms = length xs" and "i < length xs" and "\<not> ms ! i"
  shows "scatter ms xs vs ! i = xs ! i"
  using assms
proof (induction ms xs vs arbitrary: i rule: scatter.induct)
  case (1 m ms x xs vs)
  then show ?case
    by (cases i) (auto split: list.splits)
qed simp_all

lemma gather_scatter:
  assumes "length ms = length xs" and "length vs = length (filter id ms)"
  shows "map snd (filter fst (zip ms (scatter ms xs vs))) = vs"
  using assms
proof (induction ms xs vs rule: scatter.induct)
  case (1 m ms x xs vs)
  then show ?case
    by (cases vs) auto
qed simp_all

lemma scatter_gather_nth:
  assumes "length ms = length xs" and "length ys = length xs" and "i < length xs"
  shows "scatter ms xs (map snd (filter fst (zip ms ys))) ! i = (if ms ! i then ys ! i else xs ! i)"
  using assms
proof (induction ms arbitrary: xs ys i)
  case Nil
  then show ?case by simp
next
  case (Cons m ms)
  from Cons.prems obtain x xs' where xs: "xs = x # xs'" by (cases xs) auto
  from Cons.prems xs obtain y ys' where ys: "ys = y # ys'" by (cases ys) auto
  have l: "length ms = length xs'" "length ys' = length xs'"
    using Cons.prems xs ys by simp_all
  show ?case
  proof (cases i)
    case 0
    then show ?thesis by (simp add: xs ys)
  next
    case (Suc j)
    then have j: "j < length xs'" using Cons.prems(3) xs by simp
    from Cons.IH [OF l j] show ?thesis
      by (simp add: xs ys Suc)
  qed
qed


section \<open>Properties of the camera batch\<close>

subsection \<open>Sequencing of fallible steps\<close>

lemma then_err_Inl [simp]: "then_err (Inl e) f = Inl e"
  by (simp add: then_err_def)

lemma then_err_Inr [simp]: "then_err (Inr x) f = f x"
  by (simp add: then_err_def)

lemma then_err_eq_Inr: "then_err r f = Inr y \<longleftrightarrow> (\<exists>x. r = Inr x \<and> f x = Inr y)"
  by (cases r) simp_all

lemma then_err_eq_Inl: "then_err r f = Inl e \<longleftrightarrow> r = Inl e \<or> (\<exists>x. r = Inr x \<and> f x = Inl e)"
  by (cases r) simp_all

lemma sum_lessThan_4: "(\<Sum>k<(4::nat). f k) = f 0 + f 1 + f 2 + (f 3 :: real)"
  by (simp add: numeral_eq_Suc)

lemma entry4_matmul4:
  assumes "i < 4" and "j < 4"
  shows "entry4 (matmul4 A B) i j = (\<Sum>k<4. entry4 A i k * entry4 B k j)"
proof -
  obtain a0 a1 a2 a3 b0 b1 b2 b3 c0 c1 c2 c3 d0 d1 d2 d3 where
    A: "A = ((a0, a1, a2, a3), (b0, b1, b2, b3), (c0, c1, c2, c3), (d0, d1, d2, d3))"
    by (metis prod_cases4)
  obtain e0 e1 e2 e3 f0 f1 f2 f3 g0 g1 g2 g3 h0 h1 h2 h3 where
    B: "B = ((e0, e1, e2, e3), (f0, f1, f2, f3), (g0, g1, g2, g3), (h0, h1, h2, h3))"
    by (metis prod_cases4)
  from assms have i: "i = 0 \<or> i = 1 \<or> i = 2 \<or> i = 3" and j: "j = 0 \<or> j = 1 \<or> j = 2 \<or> j = 3"
    by arith+
  show ?thesis
    unfolding A B sum_lessThan_4 entry4_def using i j by auto
qed

lemma calculate_fov_keeps:
  assumes "calculate_fov c = Inr c'"
  shows "R c' = R c" and "T c' = T c" and "world_to_camera c' = world_to_camera c"
    and "distortion_params c' = distortion_params c"
  using assms by (auto simp: calculate_fov_def then_err_eq_Inr)

lemma calculate_ndc_full:
  assumes "calculate_ndc_projection_matrix c = Inr c'"
  shows "world_to_camera c' = world_to_camera c"
    and "length (projection c') = length (world_to_camera c)"
    and "full_projection c' = map2 matmul4 (world_to_camera c) (projection c')"
  using assms
  by (auto simp: calculate_ndc_projection_matrix_def Let_def then_err_eq_Inr bmm_def
      split: if_splits)

lemma calculate_camera_center_keeps:
  assumes "calculate_camera_center c = Inr c'"
  shows "world_to_camera c' = world_to_camera c" and "projection c' = projection c"
    and "full_projection c' = full_projection c"
  using assms by (auto simp: calculate_camera_center_def then_err_eq_Inr)

lemma post_init_stages:
  assumes "post_init c0 = Inr c"
  obtains c1 c2 c3 c4 where "calculate_fov c0 = Inr c1" "calculate_w2c c1 = Inr c2"
    "calculate_ndc_projection_matrix c2 = Inr c3" "calculate_camera_center c3 = Inr c4"
    "c = (if distortion_params c4 = None
            then c4\<lparr>distortion_params := Some (replicate (length (R c4)) (replicate 6 0))\<rparr>
            else c4)"
  using assms unfolding post_init_def then_err_eq_Inr by blast

lemma post_init_full_projection:
  assumes "post_init c0 = Inr c" and "b < length (full_projection c)" and "i < 4" and "j < 4"
  shows "length (world_to_camera c) = length (full_projection c)
       \<and> length (projection c) = length (full_projection c)
       \<and> full_projection c ! b = matmul4 (world_to_camera c ! b) (projection c ! b)
       \<and> entry4 (full_projection c ! b) i j =
           (\<Sum>k<4. entry4 (world_to_camera c ! b) i k * entry4 (projection c ! b) k j)"
proof -
  from assms(1) obtain c1 c2 c3 c4 where
    s1: "calculate_fov c0 = Inr c1" and s2: "calculate_w2c c1 = Inr c2" and
    s3: "calculate_ndc_projection_matrix c2 = Inr c3" and
    s4: "calculate_camera_center c3 = Inr c4" and
    c: "c = (if distortion_params c4 = None
            then c4\<lparr>distortion_params := Some (replicate (length (R c4)) (replicate 6 0))\<rparr>
            else c4)"
    by (rule post_init_stages)
  have w: "world_to_camera c = world_to_camera c3" and p: "projection c = projection c3"
    and f: "full_projection c = full_projection c3"
    using calculate_camera_center_keeps [OF s4] c by auto
  have len: "length (projection c3) = length (world_to_camera c3)"
    and full: "full_projection c3 = map2 matmul4 (world_to_camera c3) (projection c3)"
    using calculate_ndc_full [OF s3] by simp_all
  have lf: "length (full_projection c3) = length (world_to_camera c3)"
    using len full by simp
  have "full_projection c3 ! b = matmul4 (world_to_camera c3 ! b) (projection c3 ! b)"
    using assms(2) len lf unfolding f by (simp add: full)
  then show ?thesis
    using w p f len lf entry4_matmul4 [OF assms(3,4)] by simp
qed

subsection \<open>Field of view\<close>

lemma hd_single: "length xs = Suc 0 \<Longrightarrow> hd xs = xs ! 0"
  by (cases xs) simp_all

lemma broadcast2_nth:
  assumes "broadcast2 s f xs ys = Inr zs" and "i < length zs"
  shows "zs ! i = f (bget xs i) (bget ys i)"
  using assms
  by (auto simp: broadcast2_def bget_def hd_single split: if_splits)

lemma expand_to_nth:
  assumes "expand_to s n xs = Inr ys"
  shows "length ys = n" and "i < n \<Longrightarrow> ys ! i = bget xs i"
  using assms
  by (auto simp: expand_to_def bget_def hd_single split: if_splits)

lemma focal_roundtrip:
  assumes "0 < f" and "0 < d"
  shows "focal_from_fov (2 * arctan ((d / 2) / f)) d = f"
  using assms by (simp add: focal_from_fov_def tan_arctan)

lemma calculate_fov_nth:
  assumes "calculate_fov c = Inr c'"
  shows "i < length (fov_x c') \<Longrightarrow>
           fov_x c' ! i = 2 * arctan ((bget (width c) i / 2) / bget (fx c) i)"
    and "i < length (fov_y c') \<Longrightarrow>
           fov_y c' ! i = 2 * arctan ((bget (height c) i / 2) / bget (fy c) i)"
proof -
  from assms obtain qx qy where
    qx: "broadcast2 (DimensionMismatch FovStage) (\<lambda>w f. w / f) (map (\<lambda>w. w / 2) (width c)) (fx c) = Inr qx" and
    qy: "broadcast2 (DimensionMismatch FovStage) (\<lambda>h f. h / f) (map (\<lambda>h. h / 2) (height c)) (fy c) = Inr qy" and
    c': "c' = c\<lparr>fov_x := map (\<lambda>q. 2 * arctan q) qx, fov_y := map (\<lambda>q. 2 * arctan q) qy\<rparr>"
    unfolding calculate_fov_def then_err_eq_Inr by auto
  have half: "bget (map (\<lambda>w. w / 2) xs) i = bget xs i / 2"
    if "i < length xs \<or> length xs = 1" for xs :: "real list"
  proof (cases "length xs = 1")
    case True
    then show ?thesis by (cases xs) (simp_all add: bget_def)
  next
    case False
    with that have "i < length xs" by simp
    then have "map (\<lambda>w. w / 2) xs ! i = xs ! i / 2" by (rule nth_map)
    with False show ?thesis by (simp add: bget_def)
  qed
  show "fov_x c' ! i = 2 * arctan ((bget (width c) i / 2) / bget (fx c) i)"
    if "i < length (fov_x c')"
  proof -
    from that have i: "i < length qx" by (simp add: c')
    then have "i < length (width c) \<or> length (width c) = 1"
      using qx by (auto simp: broadcast2_def split: if_splits)
    then show ?thesis
      using broadcast2_nth [OF qx i] i by (simp add: c' half)
  qed
  show "fov_y c' ! i = 2 * arctan ((bget (height c) i / 2) / bget (fy c) i)"
    if "i < length (fov_y c')"
  proof -
    from that have i: "i < length qy" by (simp add: c')
    then have "i < length (height c) \<or> length (height c) = 1"
      using qy by (auto simp: broadcast2_def split: if_splits)
    then show ?thesis
      using broadcast2_nth [OF qy i] i by (simp add: c' half)
  qed
qed

lemma calculate_w2c_keeps:
  assumes "calculate_w2c c = Inr c'"
  shows "fov_x c' = fov_x c" and "fov_y c' = fov_y c" and "R c' = R c"
    and "distortion_params c' = distortion_params c"
  using assms by (auto simp: calculate_w2c_def Let_def then_err_eq_Inr)

lemma calculate_ndc_keeps:
  assumes "calculate_ndc_projection_matrix c = Inr c'"
  shows "fov_x c' = fov_x c" and "fov_y c' = fov_y c" and "R c' = R c"
    and "distortion_params c' = distortion_params c"
  using assms
  by (auto simp: calculate_ndc_projection_matrix_def Let_def then_err_eq_Inr)

lemma calculate_camera_center_keeps_fov:
  assumes "calculate_camera_center c = Inr c'"
  shows "fov_x c' = fov_x c" and "fov_y c' = fov_y c" and "R c' = R c"
    and "distortion_params c' = distortion_params c"
  using assms by (auto simp: calculate_camera_center_def then_err_eq_Inr)

lemma post_init_fov:
  assumes "post_init c0 = Inr c"
  obtains c1 where "calculate_fov c0 = Inr c1" and "fov_x c = fov_x c1" and "fov_y c = fov_y c1"
proof -
  from assms obtain c1 c2 c3 c4 where s: "calculate_fov c0 = Inr c1" "calculate_w2c c1 = Inr c2"
    "calculate_ndc_projection_matrix c2 = Inr c3" "calculate_camera_center c3 = Inr c4"
    "c = (if distortion_params c4 = None
            then c4\<lparr>distortion_params := Some (replicate (length (R c4)) (replicate 6 0))\<rparr>
            else c4)"
    by (rule post_init_stages)
  have "fov_x c = fov_x c1" and "fov_y c = fov_y c1"
    using s(5) calculate_w2c_keeps [OF s(2)] calculate_ndc_keeps [OF s(3)]
      calculate_camera_center_keeps_fov [OF s(4)] by auto
  with s(1) show ?thesis by (rule that)
qed

lemma post_init_fov_roundtrip:
  assumes "post_init c0 = Inr c"
    and "i < length (fov_x c)" and "i < length (fov_y c)"
    and "0 < bget (fx c0) i" and "0 < bget (width c0) i"
    and "0 < bget (fy c0) i" and "0 < bget (height c0) i"
  shows "fov_x c ! i = 2 * arctan ((bget (width c0) i / 2) / bget (fx c0) i)
       \<and> fov_y c ! i = 2 * arctan ((bget (height c0) i / 2) / bget (fy c0) i)
       \<and> focal_from_fov (fov_x c ! i) (bget (width c0) i) = bget (fx c0) i
       \<and> focal_from_fov (fov_y c ! i) (bget (height c0) i) = bget (fy c0) i"
proof -
  from assms(1) obtain c1 where s: "calculate_fov c0 = Inr c1"
    and x: "fov_x c = fov_x c1" and y: "fov_y c = fov_y c1"
    by (rule post_init_fov)
  have fx: "fov_x c ! i = 2 * arctan ((bget (width c0) i / 2) / bget (fx c0) i)"
    using calculate_fov_nth(1) [OF s] assms(2) by (simp add: x)
  have fy: "fov_y c ! i = 2 * arctan ((bget (height c0) i / 2) / bget (fy c0) i)"
    using calculate_fov_nth(2) [OF s] assms(3) by (simp add: y)
  show ?thesis
    using fx fy focal_roundtrip [OF assms(4,5)] focal_roundtrip [OF assms(6,7)] by simp
qed

subsection \<open>The inverse and the camera centre\<close>

lemma mat4_cases:
  obtains a0 a1 a2 a3 b0 b1 b2 b3 c0 c1 c2 c3 d0 d1 d2 d3 where
    "M = ((a0, a1, a2, a3), (b0, b1, b2, b3), (c0, c1, c2, c3), (d0, d1, d2, d3))"
  by (metis prod_cases4)

lemma adj4_left: "matmul4 (adj4 M) M = scale4 (det4 M) eye4"
  by (cases M rule: mat4_cases) (simp add: adj4_def eye4_def det3_def algebra_simps)

lemma adj4_right: "matmul4 M (adj4 M) = scale4 (det4 M) eye4"
  by (cases M rule: mat4_cases) (simp add: adj4_def eye4_def det3_def algebra_simps)

lemma matmul4_assoc: "matmul4 (matmul4 A B) C = matmul4 A (matmul4 B C)"
  by (cases A rule: mat4_cases, cases B rule: mat4_cases, cases C rule: mat4_cases)
    (simp add: algebra_simps)

lemma matmul4_eye4_left: "matmul4 eye4 A = A"
  by (cases A rule: mat4_cases) (simp add: eye4_def)

lemma matmul4_eye4_right: "matmul4 A eye4 = A"
  by (cases A rule: mat4_cases) (simp add: eye4_def)

lemma matmul4_scale4_left: "matmul4 (scale4 k A) B = scale4 k (matmul4 A B)"
  by (cases A rule: mat4_cases, cases B rule: mat4_cases) (simp add: algebra_simps)

lemma matmul4_scale4_right: "matmul4 A (scale4 k B) = scale4 k (matmul4 A B)"
  by (cases A rule: mat4_cases, cases B rule: mat4_cases) (simp add: algebra_simps)

lemma scale4_inverse: "d \<noteq> 0 \<Longrightarrow> scale4 (1 / d) (scale4 d eye4) = eye4"
  by (simp add: eye4_def)

lemma inv4_correct:
  assumes "inv4 M = Inr N"
  shows "matmul4 N M = eye4" and "matmul4 M N = eye4"
proof -
  from assms have d: "det4 M \<noteq> 0" and N: "N = scale4 (1 / det4 M) (adj4 M)"
    by (auto simp: inv4_def split: if_splits)
  show "matmul4 N M = eye4"
    unfolding N matmul4_scale4_left adj4_left using d by (rule scale4_inverse)
  show "matmul4 M N = eye4"
    unfolding N matmul4_scale4_right adj4_right using d by (rule scale4_inverse)
qed

lemma inverse4_unique:
  assumes "matmul4 N M = eye4" and "matmul4 M N' = eye4"
  shows "N = N'"
proof -
  have "N = matmul4 N (matmul4 M N')" by (simp add: assms(2) matmul4_eye4_right)
  also have "\<dots> = matmul4 (matmul4 N M) N'" by (simp add: matmul4_assoc)
  also have "\<dots> = N'" by (simp add: assms(1) matmul4_eye4_left)
  finally show ?thesis .
qed

lemma sequence_err_nth:
  assumes "sequence_err rs = Inr xs"
  shows "length xs = length rs \<and> (\<forall>i<length rs. rs ! i = Inr (xs ! i))"
  using assms
proof (induction rs arbitrary: xs rule: sequence_err.induct)
  case 1
  then show ?case by simp
next
  case (2 e rs)
  then show ?case by simp
next
  case (3 x rs)
  from "3.prems" obtain ys where ys: "sequence_err rs = Inr ys" and xs: "xs = x # ys"
    by (auto split: sum.splits)
  from "3.IH" [OF ys] show ?case
    by (auto simp: xs nth_Cons split: nat.splits)
qed

lemma linalg_inv_nth:
  assumes "linalg_inv Ms = Inr Ns"
  shows "length Ns = length Ms" and "i < length Ms \<Longrightarrow> inv4 (Ms ! i) = Inr (Ns ! i)"
  using sequence_err_nth [OF assms [unfolded linalg_inv_def]] by auto

lemma pose4_built:
  "upd4 (set_trans (set_rot zeros4 Rm) t) 3 3 1 = pose4 Rm t"
  by (cases Rm, cases t) (auto simp: zeros4_def)

lemma calculate_w2c_nth:
  assumes "calculate_w2c c = Inr c'"
  shows "length (world_to_camera c') = length (R c)"
    and "b < length (R c) \<Longrightarrow>
           world_to_camera c' ! b = transpose4 (pose4 (R c ! b) (bget (T c) b))"
proof -
  from assms obtain Ts where
    Ts: "expand_to (DimensionMismatch W2cStage) (length (R c)) (T c) = Inr Ts" and
    c': "c' = c\<lparr>world_to_camera := map transpose4 (assign_scalar
           (map2 set_trans (map2 set_rot (replicate (length (R c)) zeros4) (R c)) Ts) 3 3 1)\<rparr>"
    unfolding calculate_w2c_def Let_def then_err_eq_Inr by auto
  have len: "length Ts = length (R c)" using expand_to_nth(1) [OF Ts] .
  show "length (world_to_camera c') = length (R c)"
    by (simp add: c' assign_scalar_def len)
  show "world_to_camera c' ! b = transpose4 (pose4 (R c ! b) (bget (T c) b))"
    if "b < length (R c)"
    using that expand_to_nth(2) [OF Ts that] len
    by (simp add: c' assign_scalar_def pose4_built)
qed

lemma calculate_camera_center_nth:
  assumes "calculate_camera_center c = Inr c'"
  shows "length (camera_center c') = length (world_to_camera c)"
    and "b < length (world_to_camera c) \<Longrightarrow>
           \<exists>N. inv4 (world_to_camera c ! b) = Inr N \<and> camera_center c' ! b = translation_row N"
proof -
  from assms obtain Ns where Ns: "linalg_inv (world_to_camera c) = Inr Ns"
    and c': "c' = c\<lparr>camera_center := map translation_row Ns\<rparr>"
    unfolding calculate_camera_center_def then_err_eq_Inr by auto
  show "length (camera_center c') = length (world_to_camera c)"
    using linalg_inv_nth(1) [OF Ns] by (simp add: c')
  show "\<exists>N. inv4 (world_to_camera c ! b) = Inr N \<and> camera_center c' ! b = translation_row N"
    if "b < length (world_to_camera c)"
    using that linalg_inv_nth [OF Ns] by (simp add: c')
qed

lemma post_init_camera_center:
  assumes "post_init c0 = Inr c" and "b < length (R c0)"
    and "matmul4 N (world_to_camera c ! b) = eye4"
  shows "length (world_to_camera c) = length (R c0)
       \<and> length (camera_center c) = length (R c0)
       \<and> world_to_camera c ! b = transpose4 (pose4 (R c0 ! b) (bget (T c0) b))
       \<and> inv4 (world_to_camera c ! b) = Inr N
       \<and> camera_center c ! b = translation_row N"
proof -
  from assms(1) obtain c1 c2 c3 c4 where s: "calculate_fov c0 = Inr c1" "calculate_w2c c1 = Inr c2"
    "calculate_ndc_projection_matrix c2 = Inr c3" "calculate_camera_center c3 = Inr c4"
    "c = (if distortion_params c4 = None
            then c4\<lparr>distortion_params := Some (replicate (length (R c4)) (replicate 6 0))\<rparr>
            else c4)"
    by (rule post_init_stages)
  have w: "world_to_camera c = world_to_camera c2"
    using s(5) calculate_camera_center_keeps(1) [OF s(4)] calculate_ndc_full(1) [OF s(3)]
    by auto
  have w3: "world_to_camera c3 = world_to_camera c2"
    using calculate_ndc_full(1) [OF s(3)] .
  have cc: "camera_center c = camera_center c4"
    using s(5) by auto
  have b1: "b < length (R c1)"
    using assms(2) calculate_fov_keeps(1) [OF s(1)] by simp
  have lw: "length (world_to_camera c) = length (R c0)"
    using calculate_w2c_nth(1) [OF s(2)] calculate_fov_keeps(1) [OF s(1)] by (simp add: w)
  have lc: "length (camera_center c) = length (R c0)"
    using calculate_camera_center_nth(1) [OF s(4)] lw by (simp add: cc w w3)
  have form: "world_to_camera c ! b = transpose4 (pose4 (R c0 ! b) (bget (T c0) b))"
    using calculate_w2c_nth(2) [OF s(2) b1] calculate_fov_keeps(1,2) [OF s(1)]
    by (simp add: w)
  have "b < length (world_to_camera c3)"
    using lw assms(2) by (simp add: w w3)
  from calculate_camera_center_nth(2) [OF s(4) this]
  obtain N' where N': "inv4 (world_to_camera c ! b) = Inr N'"
    and t: "camera_center c ! b = translation_row N'"
    by (auto simp: cc w w3)
  have "N = N'"
    using assms(3) inv4_correct(2) [OF N'] by (rule inverse4_unique)
  with lw lc form N' t show ?thesis by simp
qed

subsection \<open>Where a shape error can come from\<close>

lemmas camera_eval =
  Cameras_init_def post_init_def calculate_fov_def calculate_w2c_def
  calculate_ndc_projection_matrix_def calculate_camera_center_def broadcast2_def expand_to_def
  assign_entry_def assign_scalar_def bmm_def linalg_inv_def inv4_def adj4_def det3_def
  zeros4_def znear_def zfar_def z_sign_def Let_def tan_arctan

lemma broadcast2_cases:
  "broadcast2 s f xs ys =
     (if broadcastable (length xs) (length ys)
      then Inr (projr (broadcast2 s f xs ys)) else Inl s)"
  by (simp add: broadcast2_def broadcastable_def)

lemma broadcast2_length:
  assumes "broadcast2 s f xs ys = Inr zs"
  shows "broadcastable (length xs) (length ys)"
    and "length zs = broadcast_len (length xs) (length ys)"
  using assms
  by (auto simp: broadcast2_def broadcastable_def broadcast_len_def split: if_splits)

lemma broadcast2_error:
  "broadcast2 s f xs ys = Inl e \<longleftrightarrow>
     e = s \<and> \<not> broadcastable (length xs) (length ys)"
  by (auto simp: broadcast2_def broadcastable_def)

lemma expand_to_error:
  "expand_to s n xs = Inl e \<longleftrightarrow> e = s \<and> length xs \<noteq> n \<and> length xs \<noteq> 1"
  by (auto simp: expand_to_def)

lemma calculate_fov_error:
  "calculate_fov c = Inl e \<longleftrightarrow>
     e = DimensionMismatch FovStage \<and>
     \<not> (broadcastable (length (width c)) (length (fx c)) \<and>
        broadcastable (length (height c)) (length (fy c)))"
  unfolding calculate_fov_def then_err_eq_Inl broadcast2_error
  by (auto simp: broadcast2_def broadcastable_def)

lemma calculate_fov_lengths:
  assumes "calculate_fov c = Inr c'"
  shows "broadcastable (length (width c)) (length (fx c))"
    and "broadcastable (length (height c)) (length (fy c))"
    and "length (fov_x c') = broadcast_len (length (width c)) (length (fx c))"
    and "length (fov_y c') = broadcast_len (length (height c)) (length (fy c))"
  using assms unfolding calculate_fov_def then_err_eq_Inr
  by (auto dest: broadcast2_length)

lemma calculate_w2c_error:
  "calculate_w2c c = Inl e \<longleftrightarrow>
     e = DimensionMismatch W2cStage \<and> length (T c) \<noteq> length (R c) \<and> length (T c) \<noteq> 1"
  unfolding calculate_w2c_def Let_def then_err_eq_Inl expand_to_error by auto

lemma calculate_w2c_T:
  assumes "calculate_w2c c = Inr c'"
  shows "length (T c) = length (R c) \<or> length (T c) = 1"
  using assms unfolding calculate_w2c_def Let_def then_err_eq_Inr
  by (auto simp: expand_to_def split: if_splits)

lemma assign_entry_error:
  "assign_entry s Ms i j vs = Inl e \<longleftrightarrow>
     e = s \<and> length vs \<noteq> length Ms \<and> length vs \<noteq> 1"
  unfolding assign_entry_def then_err_eq_Inl expand_to_error by auto

lemma assign_entry_length:
  assumes "assign_entry s Ms i j vs = Inr Ms'"
  shows "length Ms' = length Ms" and "length vs = length Ms \<or> length vs = 1"
  using assms unfolding assign_entry_def then_err_eq_Inr
  by (auto simp: expand_to_def split: if_splits)

lemma assign_entry_total:
  assumes "length vs = length Ms \<or> length vs = 1"
  shows "\<exists>Ms'. assign_entry s Ms i j vs = Inr Ms' \<and> length Ms' = length Ms"
  using assms unfolding assign_entry_def
  by (auto simp: expand_to_def)

lemma calculate_ndc_error:
  "calculate_ndc_projection_matrix c = Inl e \<longleftrightarrow>
     (e = DimensionMismatch ProjectionStage \<and>
        length (fov_x c) \<noteq> length (fov_y c) \<and> length (fov_x c) \<noteq> 1)
     \<or> ((length (fov_x c) = length (fov_y c) \<or> length (fov_x c) = 1) \<and>
         e = DimensionMismatch FullProjectionStage \<and>
         length (world_to_camera c) \<noteq> length (fov_y c))"
proof (cases "length (fov_x c) = length (fov_y c) \<or> length (fov_x c) = 1")
  case False
  then show ?thesis
    unfolding calculate_ndc_projection_matrix_def Let_def
    by (auto simp: assign_entry_def expand_to_def)
next
  case True
  define tx where "tx = map (\<lambda>t. t * znear) (map (\<lambda>a. tan (a / 2)) (fov_x c))"
  define ty where "ty = map (\<lambda>t. t * znear) (map (\<lambda>a. tan (a / 2)) (fov_y c))"
  define P0 where "P0 = replicate (length (fov_y c)) zeros4"
  have lx: "length tx = length (fov_x c)" and ly: "length ty = length (fov_y c)"
    by (simp_all add: tx_def ty_def)
  have l0: "length P0 = length (fov_y c)" by (simp add: P0_def)
  obtain P1 where P1: "assign_entry (DimensionMismatch ProjectionStage) P0 0 0
      (map2 (\<lambda>r l. 2 * znear / (r - l)) tx (map uminus tx)) = Inr P1"
    and l1: "length P1 = length P0"
    using assign_entry_total [of "map2 (\<lambda>r l. 2 * znear / (r - l)) tx (map uminus tx)" P0 "DimensionMismatch ProjectionStage" 0 0]
      True lx l0 by auto
  obtain P2 where P2: "assign_entry (DimensionMismatch ProjectionStage) P1 1 1
      (map2 (\<lambda>t b. 2 * znear / (t - b)) ty (map uminus ty)) = Inr P2"
    and l2: "length P2 = length P1"
    using assign_entry_total [of "map2 (\<lambda>t b. 2 * znear / (t - b)) ty (map uminus ty)" P1 "DimensionMismatch ProjectionStage" 1 1]
      ly l0 l1 by auto
  obtain P3 where P3: "assign_entry (DimensionMismatch ProjectionStage) P2 0 2
      (map2 (\<lambda>r l. (r + l) / (r - l)) tx (map uminus tx)) = Inr P3"
    and l3: "length P3 = length P2"
    using assign_entry_total [of "map2 (\<lambda>r l. (r + l) / (r - l)) tx (map uminus tx)" P2 "DimensionMismatch ProjectionStage" 0 2]
      True lx l0 l1 l2 by auto
  obtain P4 where P4: "assign_entry (DimensionMismatch ProjectionStage) P3 1 2
      (map2 (\<lambda>t b. (t + b) / (t - b)) ty (map uminus ty)) = Inr P4"
    and l4: "length P4 = length P3"
    using assign_entry_total [of "map2 (\<lambda>t b. (t + b) / (t - b)) ty (map uminus ty)" P3 "DimensionMismatch ProjectionStage" 1 2]
      ly l0 l1 l2 l3 by auto
  have "length P4 = length (fov_y c)" using l0 l1 l2 l3 l4 by simp
  then show ?thesis
    using True P1 P2 P3 P4
    unfolding calculate_ndc_projection_matrix_def Let_def tx_def [symmetric] ty_def [symmetric]
      P0_def [symmetric]
    by (auto simp: bmm_def assign_scalar_def)
qed

lemma calculate_ndc_lengths:
  assumes "calculate_ndc_projection_matrix c = Inr c'"
  shows "length (fov_x c) = length (fov_y c) \<or> length (fov_x c) = 1"
    and "length (world_to_camera c) = length (fov_y c)"
proof -
  from assms obtain P1 P2 P3 P4 where
    P1: "assign_entry (DimensionMismatch ProjectionStage) (replicate (length (fov_y c)) zeros4) 0 0
      (map2 (\<lambda>r l. 2 * znear / (r - l)) (map (\<lambda>t. t * znear) (map (\<lambda>a. tan (a / 2)) (fov_x c)))
         (map uminus (map (\<lambda>t. t * znear) (map (\<lambda>a. tan (a / 2)) (fov_x c))))) = Inr P1" and
    P2: "assign_entry (DimensionMismatch ProjectionStage) P1 1 1
      (map2 (\<lambda>t b. 2 * znear / (t - b)) (map (\<lambda>t. t * znear) (map (\<lambda>a. tan (a / 2)) (fov_y c)))
         (map uminus (map (\<lambda>t. t * znear) (map (\<lambda>a. tan (a / 2)) (fov_y c))))) = Inr P2" and
    P3: "assign_entry (DimensionMismatch ProjectionStage) P2 0 2
      (map2 (\<lambda>r l. (r + l) / (r - l)) (map (\<lambda>t. t * znear) (map (\<lambda>a. tan (a / 2)) (fov_x c)))
         (map uminus (map (\<lambda>t. t * znear) (map (\<lambda>a. tan (a / 2)) (fov_x c))))) = Inr P3" and
    P4: "assign_entry (DimensionMismatch ProjectionStage) P3 1 2
      (map2 (\<lambda>t b. (t + b) / (t - b)) (map (\<lambda>t. t * znear) (map (\<lambda>a. tan (a / 2)) (fov_y c)))
         (map uminus (map (\<lambda>t. t * znear) (map (\<lambda>a. tan (a / 2)) (fov_y c))))) = Inr P4" and
    F: "\<exists>F. bmm (world_to_camera c) (map transpose4 (assign_scalar (assign_scalar
          (assign_scalar P4 3 2 z_sign) 2 2 (z_sign * zfar / (zfar - znear))) 2 3
          (- (zfar * znear) / (zfar - znear)))) = Inr F"
    unfolding calculate_ndc_projection_matrix_def Let_def then_err_eq_Inr by auto
  show "length (fov_x c) = length (fov_y c) \<or> length (fov_x c) = 1"
    using assign_entry_length(2) [OF P1] by simp
  have "length P4 = length (fov_y c)"
    using assign_entry_length(1) [OF P1] assign_entry_length(1) [OF P2]
      assign_entry_length(1) [OF P3] assign_entry_length(1) [OF P4] by simp
  then show "length (world_to_camera c) = length (fov_y c)"
    using F by (auto simp: bmm_def assign_scalar_def split: if_splits)
qed

lemma calculate_camera_center_error:
  "calculate_camera_center c = Inl e \<Longrightarrow> e = LinAlgError"
proof -
  have seq: "sequence_err (map inv4 Ms) = Inl e \<Longrightarrow> e = LinAlgError" for Ms
  proof (induction Ms)
    case Nil
    then show ?case by simp
  next
    case (Cons M Ms)
    then show ?case
      by (cases "det4 M = 0") (auto simp: inv4_def split: sum.splits)
  qed
  assume "calculate_camera_center c = Inl e"
  then show ?thesis
    unfolding calculate_camera_center_def then_err_eq_Inl linalg_inv_def
    using seq by auto
qed

lemma post_init_dimension_mismatch:
  "post_init c = Inl (DimensionMismatch s) \<longleftrightarrow>
     (s = FovStage \<and>
        \<not> (broadcastable (length (width c)) (length (fx c)) \<and>
           broadcastable (length (height c)) (length (fy c))))
     \<or> (broadcastable (length (width c)) (length (fx c)) \<and>
         broadcastable (length (height c)) (length (fy c)) \<and>
         ((s = W2cStage \<and> length (T c) \<noteq> length (R c) \<and> length (T c) \<noteq> 1)
          \<or> ((length (T c) = length (R c) \<or> length (T c) = 1) \<and>
              ((s = ProjectionStage \<and>
                  broadcast_len (length (width c)) (length (fx c)) \<noteq>
                    broadcast_len (length (height c)) (length (fy c)) \<and>
                  broadcast_len (length (width c)) (length (fx c)) \<noteq> 1)
               \<or> ((broadcast_len (length (width c)) (length (fx c)) =
                      broadcast_len (length (height c)) (length (fy c)) \<or>
                    broadcast_len (length (width c)) (length (fx c)) = 1) \<and>
                   s = FullProjectionStage \<and>
                   length (R c) \<noteq> broadcast_len (length (height c)) (length (fy c)))))))"
  (is "?lhs \<longleftrightarrow> ?rhs")
proof (cases "calculate_fov c")
  case (Inl e)
  then show ?thesis
    using calculate_fov_error [of c e] by (auto simp: post_init_def)
next
  case (Inr c1)
  note s1 = Inr
  have bc: "broadcastable (length (width c)) (length (fx c))"
    "broadcastable (length (height c)) (length (fy c))"
    and lx: "length (fov_x c1) = broadcast_len (length (width c)) (length (fx c))"
    and ly: "length (fov_y c1) = broadcast_len (length (height c)) (length (fy c))"
    using calculate_fov_lengths [OF s1] by simp_all
  have RT: "R c1 = R c" "T c1 = T c"
    using calculate_fov_keeps [OF s1] by simp_all
  show ?thesis
  proof (cases "calculate_w2c c1")
    case (Inl e)
    then show ?thesis
      using calculate_w2c_error [of c1 e] bc by (auto simp: post_init_def s1 RT)
  next
    case (Inr c2)
    note s2 = Inr
    have T: "length (T c) = length (R c) \<or> length (T c) = 1"
      using calculate_w2c_T [OF s2] by (simp add: RT)
    have f2: "fov_x c2 = fov_x c1" "fov_y c2 = fov_y c1"
      using calculate_w2c_keeps [OF s2] by simp_all
    have w2: "length (world_to_camera c2) = length (R c)"
      using calculate_w2c_nth(1) [OF s2] by (simp add: RT)
    show ?thesis
    proof (cases "calculate_ndc_projection_matrix c2")
      case (Inl e)
      then show ?thesis
        using calculate_ndc_error [of c2 e] bc T
        by (auto simp: post_init_def s1 s2 f2 lx ly w2)
    next
      case (Inr c3)
      note s3 = Inr
      have ok: "length (fov_x c2) = length (fov_y c2) \<or> length (fov_x c2) = 1"
        "length (world_to_camera c2) = length (fov_y c2)"
        using calculate_ndc_lengths [OF s3] by simp_all
      have no: "\<not> ?rhs"
        using bc T ok by (auto simp: f2 lx ly w2)
      have "\<not> ?lhs"
      proof (cases "calculate_camera_center c3")
        case (Inl e)
        then show ?thesis
          using calculate_camera_center_error [of c3 e]
          by (auto simp: post_init_def s1 s2 s3)
      next
        case (Inr c4)
        then show ?thesis
          by (simp add: post_init_def s1 s2 s3)
      qed
      with no show ?thesis by simp
    qed
  qed
qed


section \<open>Properties of the data-parser split\<close>

lemma split_loop_filter:
  "split_loop e xs tr va =
     (tr @ filter (\<lambda>i. int i mod e \<noteq> 0) xs, va @ filter (\<lambda>i. int i mod e = 0) xs)"
  by (induction xs arbitrary: tr va) simp_all

lemma index_all_in_range:
  assumes "\<forall>i\<in>set js. i < length xs"
  shows "index_all xs js = Inr (map (\<lambda>i. xs ! i) js)"
  using assms by (induction js) simp_all

lemma map_nth_upt: "map (\<lambda>i. xs ! i) [0..<length xs] = xs"
  by (rule map_nth)

lemma get_outputs_split_small:
  assumes "image_name_list \<noteq> []" and "eval_step \<le> 1"
  shows "get_outputs_split image_name_list eval_step =
           Inr (\<lparr>image_indices = [0..<length image_name_list], image_names = image_name_list\<rparr>,
                \<lparr>image_indices = [0], image_names = [image_name_list ! 0]\<rparr>)"
proof -
  have "index_all image_name_list [0..<length image_name_list] = Inr image_name_list"
    using index_all_in_range [of "[0..<length image_name_list]" image_name_list]
    by (simp add: map_nth)
  moreover have "index_all image_name_list [0] = Inr [image_name_list ! 0]"
    using assms(1) by simp
  ultimately show ?thesis
    using assms by (simp add: get_outputs_split_def build_split_indices_def)
qed

lemma get_outputs_split_large:
  assumes "image_name_list \<noteq> []" and "1 < eval_step"
  shows "get_outputs_split image_name_list eval_step =
           Inr (\<lparr>image_indices = filter (\<lambda>i. int i mod eval_step \<noteq> 0) [0..<length image_name_list],
                 image_names = map (\<lambda>i. image_name_list ! i)
                   (filter (\<lambda>i. int i mod eval_step \<noteq> 0) [0..<length image_name_list])\<rparr>,
                \<lparr>image_indices = filter (\<lambda>i. int i mod eval_step = 0) [0..<length image_name_list],
                 image_names = map (\<lambda>i. image_name_list ! i)
                   (filter (\<lambda>i. int i mod eval_step = 0) [0..<length image_name_list])\<rparr>)"
proof -
  have tr: "index_all image_name_list
              (filter (\<lambda>i. int i mod eval_step \<noteq> 0) [0..<length image_name_list]) =
            Inr (map (\<lambda>i. image_name_list ! i)
              (filter (\<lambda>i. int i mod eval_step \<noteq> 0) [0..<length image_name_list]))"
    by (rule index_all_in_range) simp
  have va: "index_all image_name_list
              (filter (\<lambda>i. int i mod eval_step = 0) [0..<length image_name_list]) =
            Inr (map (\<lambda>i. image_name_list ! i)
              (filter (\<lambda>i. int i mod eval_step = 0) [0..<length image_name_list]))"
    by (rule index_all_in_range) simp
  show ?thesis
    using assms tr va
    by (simp add: get_outputs_split_def build_split_indices_def split_loop_filter)
qed


section \<open>Properties of the training step\<close>

lemma densification_grow_prune:
  assumes "global_step < densify_until_iter opt"
    and "densify_from_iter opt < global_step"
    and "densification_interval opt \<noteq> 0"
    and "global_step mod densification_interval opt = 0"
    and "opacity_reset_interval opt \<noteq> 0"
  shows "densification opt background_color cameras_extent (global_step - 1) =
     Inr ([UpdateMaxRadii2D, AddDensificationStats,
           DensifyAndPrune (densify_grad_threshold opt) (5 / 1000) cameras_extent
             (if opacity_reset_interval opt < global_step then Some 20 else None)] @
          (if global_step mod opacity_reset_interval opt = 0 then [ResetOpacity] else []))"
  using assms by (simp add: densification_def py_mod_def Let_def)

lemma mask_select_ok:
  "length ms = length xs \<Longrightarrow> mask_select ms xs = Inr (map snd (filter fst (zip ms xs)))"
  by (simp add: mask_select_def)

lemma mask_assign_selected:
  assumes "length ms = length xs" and "length ys = length xs"
  shows "mask_assign ms xs (map snd (filter fst (zip ms ys))) =
           Inr (scatter ms xs (map snd (filter fst (zip ms ys))))"
  using assms length_selected [of ms ys] by (simp add: mask_assign_def Let_def)

lemma sum_list_zero: "(\<forall>x\<in>set xs. x = (0::real)) \<Longrightarrow> sum_list xs = 0"
  by (induction xs) simp_all

lemma training_loss_masked:
  assumes "length bmask = length gt_image" and "length render = length gt_image"
  defines "gt' \<equiv> scatter bmask gt_image (map snd (filter fst (zip bmask render)))"
  shows "training_loss ssim lambda_dssim render gt_image (Some bmask) =
     Inr \<lparr>gt_image_used = gt',
          l1_loss = tensor_mean (map abs (map2 (\<lambda>a b. a - b) render gt')),
          ssim_metric = ssim render gt',
          loss = map_option (\<lambda>l. (1 - lambda_dssim) * l + lambda_dssim * (1 - ssim render gt'))
                   (tensor_mean (map abs (map2 (\<lambda>a b. a - b) render gt')))\<rparr>"
proof -
  have s: "mask_select bmask render = Inr (map snd (filter fst (zip bmask render)))"
    using assms(1,2) by (simp add: mask_select_ok)
  have a: "mask_assign bmask gt_image (map snd (filter fst (zip bmask render))) = Inr gt'"
    unfolding gt'_def using assms(1,2) by (rule mask_assign_selected)
  have l: "length gt' = length render"
    by (simp add: gt'_def length_scatter assms(2))
  show ?thesis
    by (simp add: training_loss_def s a l broadcast2_def Let_def)
qed


section \<open>Properties of the learning-rate schedules\<close>

lemma lr_lambda_value:
  assumes "0 < ms" and "0 < ff"
  shows "lr_lambda (snd (create_optimizer_and_scheduler ps nm li ff ms ep wu)) t =
           Inr (ff powr clamp (of_int (t - wu) / of_int ms) 0 1)"
proof -
  have "min (of_int (max (t - wu) 0) / of_int ms) 1 = clamp (of_int (t - wu) / of_int ms) 0 (1::real)"
  proof (cases "t - wu \<le> 0")
    case True
    then have "of_int (t - wu) / (of_int ms :: real) \<le> 0"
      using assms(1) by (simp add: divide_nonpos_pos)
    with True show ?thesis by (simp add: clamp_def max_def min_def)
  next
    case False
    then have "0 \<le> of_int (t - wu) / (of_int ms :: real)"
      using assms(1) by simp
    with False show ?thesis by (auto simp: clamp_def max_def min_def)
  qed
  then show ?thesis
    using assms by (simp add: create_optimizer_and_scheduler_def py_truediv_def float_pow_def)
qed

lemma scheduler_lr_value:
  assumes "0 < ms" and "0 < ff"
  shows "scheduler_lr (snd (create_optimizer_and_scheduler ps nm li ff ms ep wu)) t =
           Inr (li * ff powr clamp (of_int (t - wu) / of_int ms) 0 1)"
  unfolding scheduler_lr_def lr_lambda_value [OF assms]
  by (simp add: create_optimizer_and_scheduler_def)

lemma clamp_low: "x \<le> 0 \<Longrightarrow> clamp x 0 1 = 0"
  by (simp add: clamp_def)

lemma clamp_high: "1 \<le> x \<Longrightarrow> clamp x 0 1 = 1"
  by (simp add: clamp_def)

lemma scheduler_lr_scheduled_rate:
  assumes "0 < ms" and "0 < ff"
  shows "scheduler_lr (snd (create_optimizer_and_scheduler ps nm li ff ms ep wu)) t =
           Inr (scheduled_rate li ff wu ms t)"
  unfolding scheduled_rate_def using assms by (rule scheduler_lr_value)

lemma training_setup_schedules:
  assumes "self_model self = Some m"
    and "0 < max_steps (optimization (config self))"
    and "0 < lr_final_factor (optimization (config self))"
  shows "\<exists>optimizers embedding_scheduler network_scheduler.
     training_setup self = Inr (optimizers, [embedding_scheduler, network_scheduler]) \<and>
     (\<forall>t. scheduler_lr embedding_scheduler t =
        Inr (scheduled_rate (embedding_lr_init (optimization (config self)))
               (lr_final_factor (optimization (config self)))
               (warm_up (optimization (config self)))
               (max_steps (optimization (config self))) t)) \<and>
     (\<forall>t. scheduler_lr network_scheduler t =
        Inr (scheduled_rate (lr_init (optimization (config self)))
               (lr_final_factor (optimization (config self)))
               (warm_up (optimization (config self)))
               (max_steps (optimization (config self))) t))"
proof -
  define opt where "opt = optimization (config self)"
  define eo where "eo = create_optimizer_and_scheduler (EmbeddingParameters (weight (embedding m)))
    ''embedding'' (embedding_lr_init opt) (lr_final_factor opt) (max_steps opt) (eps opt)
    (warm_up opt)"
  define no where "no = create_optimizer_and_scheduler (NetworkParameters (network m))
    ''embedding_network'' (lr_init opt) (lr_final_factor opt) (max_steps opt) (eps opt)
    (warm_up opt)"
  have pos: "0 < max_steps opt" "0 < lr_final_factor opt"
    using assms(2,3) by (simp_all add: opt_def)
  have s: "training_setup self = Inr ([fst eo, fst no], [snd eo, snd no])"
    by (simp add: training_setup_def assms(1) Let_def eo_def no_def opt_def split: prod.splits)
  have e: "scheduler_lr (snd eo) t = Inr (scheduled_rate (embedding_lr_init opt)
      (lr_final_factor opt) (warm_up opt) (max_steps opt) t)" for t
    unfolding eo_def by (rule scheduler_lr_scheduled_rate [OF pos])
  have n: "scheduler_lr (snd no) t = Inr (scheduled_rate (lr_init opt)
      (lr_final_factor opt) (warm_up opt) (max_steps opt) t)" for t
    unfolding no_def by (rule scheduler_lr_scheduled_rate [OF pos])
  show ?thesis
    unfolding opt_def [symmetric] using s e n by blast
qed

section \<open>Properties of the renderer's set-up\<close>

lemma max_input_id_loop_Max:
  "max_input_id_loop m ids = Max (insert m (fst ` set ids))"
proof (induction ids arbitrary: m)
  case Nil
  then show ?case by simp
next
  case (Cons i ids)
  have "Max (insert (max m (fst i)) (fst ` set ids)) = Max (insert m (insert (fst i) (fst ` set ids)))"
    by (cases "fst ` set ids = {}") (simp_all add: max.assoc)
  moreover have "(if m < fst i then fst i else m) = max m (fst i)"
    by (simp add: max_def)
  ultimately show ?case
    using Cons.IH [of "max m (fst i)"] by simp
qed

lemma max_input_id_loop_max_id:
  assumes "\<forall>i\<in>set ids. 0 \<le> fst i"
  shows "max_input_id_loop 0 ids = max_id (map fst ids)"
proof (cases ids)
  case Nil
  then show ?thesis by (simp add: max_id_def)
next
  case (Cons i rest)
  have ne: "fst ` set ids \<noteq> {}" and fin: "finite (fst ` set ids)"
    using Cons by simp_all
  have "fst i \<in> fst ` set ids" using Cons by simp
  then have "fst i \<le> Max (fst ` set ids)" using fin by simp
  moreover have "0 \<le> fst i" using assms Cons by simp
  ultimately have "0 \<le> Max (fst ` set ids)" by (rule order_trans [rotated])
  then have "Max (insert 0 (fst ` set ids)) = Max (fst ` set ids)"
    using ne fin by (simp add: max_def)
  then show ?thesis
    using Cons by (simp add: max_input_id_loop_Max max_id_def)
qed

lemma derived_size:
  assumes "\<forall>i\<in>set (observed_ids lm). 0 \<le> i"
  shows "(case appearance_group_ids lm of None \<Rightarrow> 0
          | Some ids \<Rightarrow> max_input_id_loop 0 (map snd ids)) = max_id (observed_ids lm)"
proof (cases "appearance_group_ids lm")
  case None
  then show ?thesis by (simp add: observed_ids_def max_id_def)
next
  case (Some ids)
  have "\<forall>i\<in>set (map snd ids). 0 \<le> fst i"
    using assms Some by (auto simp: observed_ids_def)
  from max_input_id_loop_max_id [OF this] show ?thesis
    using Some by (simp add: observed_ids_def comp_def)
qed

lemma max_id_nonneg: "\<forall>i\<in>set ids. 0 \<le> i \<Longrightarrow> 0 \<le> max_id ids"
  by (cases ids) (auto simp: max_id_def intro: order_trans [OF _ Max_ge])

lemma new_Model_ok:
  assumes "0 \<le> n_appearances cfg" and "0 \<le> n_appearance_embedding_dims cfg"
  shows "\<exists>m. new_Model ext cfg = Inr m
         \<and> num_embeddings (embedding m) = n_appearances cfg
         \<and> embedding_dim (embedding m) = n_appearance_embedding_dims cfg
         \<and> model_config m = cfg"
  using assms by (simp add: new_Model_def new_Embedding_def Let_def)

lemma setup_model_ok:
  assumes "0 \<le> n_appearances (model (config self))"
    and "0 \<le> n_appearance_embedding_dims (model (config self))"
  shows "\<exists>m. setup_model ext self =
           Inr (self\<lparr>self_model := Some m,
                     trace := trace self @ [AllocateModel (n_appearances (model (config self)))]\<rparr>)
         \<and> num_embeddings (embedding m) = n_appearances (model (config self))
         \<and> embedding_dim (embedding m) = n_appearance_embedding_dims (model (config self))
         \<and> model_config m = model (config self)"
proof -
  from new_Model_ok [OF assms, of ext] obtain m where
    m: "new_Model ext (model (config self)) = Inr m"
    and p: "num_embeddings (embedding m) = n_appearances (model (config self))"
      "embedding_dim (embedding m) = n_appearance_embedding_dims (model (config self))"
      "model_config m = model (config self)"
    by blast
  have "setup_model ext self =
           Inr (self\<lparr>self_model := Some m,
                     trace := trace self @ [AllocateModel (n_appearances (model (config self)))]\<rparr>)"
    by (simp add: setup_model_def m)
  with p show ?thesis by blast
qed

lemma setup_renderer_derives:
  assumes "n_appearances (model (config self)) \<le> 0"
    and "0 \<le> n_appearance_embedding_dims (model (config self))"
    and "\<forall>i\<in>set (observed_ids lm). 0 \<le> i"
  shows "\<exists>self' m. setup_renderer ext stage (Some lm) self = Inr self'
     \<and> n_appearances (model (config self')) = max_id (observed_ids lm) + 1
     \<and> n_appearance_embedding_dims (model (config self')) =
         n_appearance_embedding_dims (model (config self))
     \<and> self_model self' = Some m
     \<and> num_embeddings (embedding m) = max_id (observed_ids lm) + 1
     \<and> trace self' = trace self @ [SetNAppearances (max_id (observed_ids lm) + 1),
                                    AllocateModel (max_id (observed_ids lm) + 1)]"
proof -
  define n where "n = max_id (observed_ids lm) + 1"
  define self1 where "self1 = self\<lparr>config := (config self)\<lparr>model :=
      (model (config self))\<lparr>n_appearances := n\<rparr>\<rparr>, trace := trace self @ [SetNAppearances n]\<rparr>"
  have n0: "0 \<le> n" using max_id_nonneg [OF assms(3)] by (simp add: n_def)
  have s: "setup_renderer ext stage (Some lm) self = setup_model ext self1"
    using assms(1) derived_size [OF assms(3)]
    by (simp add: setup_renderer_def Let_def self1_def n_def)
  have "0 \<le> n_appearances (model (config self1))"
    "0 \<le> n_appearance_embedding_dims (model (config self1))"
    using n0 assms(2) by (simp_all add: self1_def)
  from setup_model_ok [OF this, of ext] obtain m where
    m: "setup_model ext self1 = Inr (self1\<lparr>self_model := Some m,
          trace := trace self1 @ [AllocateModel (n_appearances (model (config self1)))]\<rparr>)"
    and e: "num_embeddings (embedding m) = n_appearances (model (config self1))"
    by blast
  show ?thesis
    unfolding n_def [symmetric] s m using e
    by (intro exI [of _ "self1\<lparr>self_model := Some m,
          trace := trace self1 @ [AllocateModel (n_appearances (model (config self1)))]\<rparr>"]
        exI [of _ m]) (simp add: self1_def)
qed

lemma setup_renderer_keeps:
  assumes "0 < n_appearances (model (config self))"
    and "0 \<le> n_appearance_embedding_dims (model (config self))"
  shows "\<exists>self'. setup_renderer ext stage (Some lm) self = Inr self'
     \<and> n_appearances (model (config self')) = n_appearances (model (config self))
     \<and> trace self' = trace self @ [AllocateModel (n_appearances (model (config self)))]"
proof -
  have "0 \<le> n_appearances (model (config self))" using assms(1) by simp
  from setup_model_ok [OF this assms(2), of ext] obtain m where
    "setup_model ext self = Inr (self\<lparr>self_model := Some m,
       trace := trace self @ [AllocateModel (n_appearances (model (config self)))]\<rparr>)"
    by blast
  then show ?thesis
    using assms(1) by (simp add: setup_renderer_def Let_def)
qed

lemma new_Model_props:
  assumes "new_Model ext cfg = Inr m"
  shows "num_embeddings (embedding m) = n_appearances cfg"
    and "embedding_dim (embedding m) = n_appearance_embedding_dims cfg"
    and "model_config m = cfg"
  using assms
  by (auto simp: new_Model_def new_Embedding_def Let_def then_err_eq_Inr split: if_splits)

lemma setup_model_props:
  assumes "setup_model ext self = Inr self'"
  shows "\<exists>m. self_model self' = Some m
     \<and> num_embeddings (embedding m) = n_appearances (model (config self))
     \<and> embedding_dim (embedding m) = n_appearance_embedding_dims (model (config self))
     \<and> model_config m = model (config self)
     \<and> config self' = config self
     \<and> trace self' = trace self @ [AllocateModel (n_appearances (model (config self)))]"
proof -
  from assms obtain m where m: "new_Model ext (model (config self)) = Inr m"
    and s: "self' = self\<lparr>self_model := Some m,
      trace := trace self @ [AllocateModel (n_appearances (model (config self)))]\<rparr>"
    unfolding setup_model_def then_err_eq_Inr by auto
  show ?thesis
    using new_Model_props [OF m] by (simp add: s)
qed

lemma length_table_rows: "tensor_shape t = [n, d] \<Longrightarrow> length (table_rows t) = n"
  by (simp add: table_rows_def)

lemma super_load_state_dict_props:
  assumes "super_load_state_dict mext state_dict strict m = Inr m'"
    and "map_of state_dict ''model.embedding.weight'' = Some t"
  shows "tensor_shape t = [nat (num_embeddings (embedding m)), nat (embedding_dim (embedding m))]"
    and "num_embeddings (embedding m') = num_embeddings (embedding m)"
    and "weight (embedding m') = table_rows t"
proof -
  define mism where "mism = filter (\<lambda>(k, sh).
      case map_of state_dict k of None \<Rightarrow> False | Some t \<Rightarrow> tensor_shape t \<noteq> sh)
    (expected_state mext m)"
  from assms(1) have e: "mism = []"
    and m': "m' = m\<lparr>embedding :=
                       (case map_of state_dict ''model.embedding.weight'' of
                          None \<Rightarrow> embedding m
                        | Some t \<Rightarrow> (embedding m)\<lparr>weight := table_rows t\<rparr>),
                     network := load_network mext state_dict (network m)\<rparr>"
    by (auto simp: super_load_state_dict_def Let_def mism_def split: if_splits)
  have "(''model.embedding.weight'',
      [nat (num_embeddings (embedding m)), nat (embedding_dim (embedding m))])
      \<in> set (expected_state mext m)"
    by (simp add: expected_state_def)
  then have "\<not> (case map_of state_dict ''model.embedding.weight'' of None \<Rightarrow> False
      | Some t \<Rightarrow> tensor_shape t \<noteq>
          [nat (num_embeddings (embedding m)), nat (embedding_dim (embedding m))])"
    using e unfolding mism_def filter_empty_conv by blast
  then show "tensor_shape t =
      [nat (num_embeddings (embedding m)), nat (embedding_dim (embedding m))]"
    by (simp add: assms(2))
  show "num_embeddings (embedding m') = num_embeddings (embedding m)"
    by (simp add: m' assms(2))
  show "weight (embedding m') = table_rows t"
    by (simp add: m' assms(2))
qed

lemma load_state_dict_returns:
  assumes "load_state_dict ext mext state_dict strict self = Inr self'"
  shows "\<exists>t n rest m.
     map_of state_dict ''model.embedding.weight'' = Some t \<and>
     tensor_shape t = n # rest \<and>
     n_appearances (model (config self')) = int n \<and>
     self_model self' = Some m \<and>
     num_embeddings (embedding m) = int n \<and>
     weight (embedding m) = table_rows t \<and>
     length (weight (embedding m)) = n"
proof -
  from assms obtain t where t: "map_of state_dict ''model.embedding.weight'' = Some t"
    by (auto simp: load_state_dict_def split: option.splits)
  from assms t obtain n rest where sh: "tensor_shape t = n # rest"
    by (auto simp: load_state_dict_def split: list.splits)
  define self1 where "self1 = self\<lparr>config := (config self)\<lparr>model :=
      (model (config self))\<lparr>n_appearances := int n\<rparr>\<rparr>,
      trace := trace self @ [SetNAppearances (int n)]\<rparr>"
  from assms t sh obtain self2 m m' where s2: "setup_model ext self1 = Inr self2"
    and m: "self_model self2 = Some m"
    and sup: "super_load_state_dict mext state_dict strict m = Inr m'"
    and s': "self' = self2\<lparr>self_model := Some m'\<rparr>"
    by (auto simp: load_state_dict_def Let_def self1_def [symmetric] then_err_eq_Inr
        split: option.splits)
  from setup_model_props [OF s2] m have
    ne: "num_embeddings (embedding m) = int n" and c2: "config self2 = config self1"
    by (auto simp: self1_def)
  have shape: "tensor_shape t = [nat (num_embeddings (embedding m)), nat (embedding_dim (embedding m))]"
    and ne': "num_embeddings (embedding m') = num_embeddings (embedding m)"
    and w: "weight (embedding m') = table_rows t"
    using super_load_state_dict_props [OF sup t] by simp_all
  have "length (table_rows t) = n"
    using length_table_rows [OF shape] ne by simp
  then show ?thesis
    using t sh ne ne' w c2 by (simp add: s' self1_def)
qed

lemma super_load_state_dict_ok:
  assumes "\<forall>(k, sh)\<in>set (expected_state mext m).
             \<exists>t. map_of state_dict k = Some t \<and> tensor_shape t = sh"
    and "\<forall>k\<in>fst ` set state_dict. k \<in> fst ` set (expected_state mext m)"
  shows "\<exists>m'. super_load_state_dict mext state_dict strict m = Inr m'"
proof -
  have 1: "filter (\<lambda>k. map_of state_dict k = None) (map fst (expected_state mext m)) = []"
    using assms(1) by (fastforce simp: filter_empty_conv)
  have 2: "filter (\<lambda>k. k \<notin> fst ` set (expected_state mext m)) (map fst state_dict) = []"
    using assms(2) by (auto simp: filter_empty_conv)
  have 3: "filter (\<lambda>(k, sh).
      case map_of state_dict k of None \<Rightarrow> False | Some t \<Rightarrow> tensor_shape t \<noteq> sh)
    (expected_state mext m) = []"
    using assms(1) by (fastforce simp: filter_empty_conv)
  show ?thesis
    by (simp add: super_load_state_dict_def Let_def 1 2 3)
qed

lemma load_state_dict_ok:
  assumes "map_of state_dict ''model.embedding.weight'' = Some t"
    and "tensor_shape t = [n, nat (n_appearance_embedding_dims (model (config self)))]"
    and "0 \<le> n_appearance_embedding_dims (model (config self))"
    and "\<forall>(k, sh)\<in>set (other_state_shapes mext ((model (config self))\<lparr>n_appearances := int n\<rparr>)).
             \<exists>t'. map_of state_dict k = Some t' \<and> tensor_shape t' = sh"
    and "\<forall>k\<in>fst ` set state_dict. k = ''model.embedding.weight'' \<or>
           k \<in> fst ` set (other_state_shapes mext ((model (config self))\<lparr>n_appearances := int n\<rparr>))"
  shows "\<exists>self'. load_state_dict ext mext state_dict strict self = Inr self'"
proof -
  define self1 where "self1 = self\<lparr>config := (config self)\<lparr>model :=
      (model (config self))\<lparr>n_appearances := int n\<rparr>\<rparr>,
      trace := trace self @ [SetNAppearances (int n)]\<rparr>"
  have "0 \<le> n_appearances (model (config self1))"
    "0 \<le> n_appearance_embedding_dims (model (config self1))"
    using assms(3) by (simp_all add: self1_def)
  from setup_model_ok [OF this, of ext] obtain m where
    s2: "setup_model ext self1 = Inr (self1\<lparr>self_model := Some m,
          trace := trace self1 @ [AllocateModel (n_appearances (model (config self1)))]\<rparr>)"
    and e: "num_embeddings (embedding m) = n_appearances (model (config self1))"
      "embedding_dim (embedding m) = n_appearance_embedding_dims (model (config self1))"
      "model_config m = model (config self1)"
    by blast
  have ex: "expected_state mext m =
      (''model.embedding.weight'', [n, nat (n_appearance_embedding_dims (model (config self)))])
      # other_state_shapes mext ((model (config self))\<lparr>n_appearances := int n\<rparr>)"
    by (simp add: expected_state_def e self1_def)
  have a: "\<forall>(k, sh)\<in>set (expected_state mext m).
             \<exists>t. map_of state_dict k = Some t \<and> tensor_shape t = sh"
    unfolding ex using assms(1,2,4) by auto
  have b: "\<forall>k\<in>fst ` set state_dict. k \<in> fst ` set (expected_state mext m)"
    unfolding ex using assms(5) by auto
  from super_load_state_dict_ok [OF a b, of strict] obtain m' where
    sup: "super_load_state_dict mext state_dict strict m = Inr m'" by blast
  show ?thesis
    using assms(1,2) s2 sup
    by (simp add: load_state_dict_def Let_def self1_def [symmetric])
qed


section \<open>Properties of the colour computation\<close>

lemma mask_select_length:
  assumes "mask_select ms xs = Inr ys"
  shows "length ms = length xs" and "length ys = length (filter id ms)"
  using assms length_selected [of ms xs]
  by (auto simp: mask_select_def split: if_splits)

lemma Model_forward_rows:
  assumes "0 \<le> a" and "nat a < length (weight (embedding m))"
    and "\<forall>inp. length (network m inp) = length inp"
    and "is_view_dependent (model_config m) \<longrightarrow>
           (\<exists>enc. view_direction_encoding m = Some enc \<and> (\<forall>ds. length (enc ds) = length ds))"
    and "length dirs = length feats"
  shows "\<exists>out. Model_forward m feats a dirs = Inr out \<and> length out = length feats"
proof -
  have row: "embedding_lookup (embedding m) a = Inr (weight (embedding m) ! nat a)"
    using assms(1,2) by (simp add: embedding_lookup_def)
  define f' where "f' = (if normalize_cfg (model_config m) then map l2_normalize feats else feats)"
  define e' where "e' = (if normalize_cfg (model_config m)
    then map l2_normalize (replicate (length feats) (weight (embedding m) ! nat a))
    else replicate (length feats) (weight (embedding m) ! nat a))"
  have l: "length f' = length feats" "length e' = length feats"
    by (simp_all add: f'_def e'_def)
  have c: "concat_last f' e' = Inr (map2 (@) f' e')"
    by (simp add: concat_last_def l)
  have li: "length (map2 (@) f' e') = length feats"
    by (simp add: l)
  show ?thesis
  proof (cases "is_view_dependent (model_config m)")
    case False
    then show ?thesis
      using assms(3) li
      by (simp add: Model_forward_def row Let_def f'_def [symmetric] e'_def [symmetric] c)
  next
    case True
    with assms(4) obtain enc where enc: "view_direction_encoding m = Some enc"
      and le: "\<forall>ds. length (enc ds) = length ds"
      by blast
    have c2: "concat_last (map2 (@) f' e') (enc dirs) = Inr (map2 (@) (map2 (@) f' e') (enc dirs))"
      using le li assms(5) by (simp add: concat_last_def)
    have "length (map2 (@) (map2 (@) f' e') (enc dirs)) = length feats"
      using le li assms(5) by simp
    then show ?thesis
      using True assms(3)
      by (simp add: Model_forward_def row Let_def f'_def [symmetric] e'_def [symmetric] c enc c2)
  qed
qed

lemma selective_sh_rows:
  assumes "length ms = length (get_shs pc)" and "length ms = length (get_shs_dc pc)"
    and "length ms = length (get_shs_rest pc)"
    and "\<forall>deg ds shs. length (spherical_harmonics ext deg ds shs None) = length ds"
    and "\<forall>deg ds dc rest. length (spherical_harmonics_decomposed ext deg ds dc rest None) = length ds"
  shows "\<exists>colours. selective_sh ext pc dirs ms = Inr colours \<and> length colours = length dirs"
  using assms by (simp add: selective_sh_def mask_select_def)

lemma get_rgbs_warm_up:
  "get_rgbs ext self cam pc projections vis (Some True) =
     Inr (map (vmap (\<lambda>x. max x 0))
            (map (vmap (\<lambda>x. x + 1 / 2))
               (sh ext pc (map (\<lambda>p. vzip (-) p (viewpoint_camera_center cam)) (get_xyz pc))
                  (Some vis))),
          [])"
  by (simp add: get_rgbs_def)

lemma get_rgbs_residual:
  assumes m: "self_model self = Some m"
    and lv: "length vis = length (get_xyz pc)"
    and lf: "length (get_appearance_features pc) = length (get_xyz pc)"
    and ls: "length (get_shs pc) = length (get_xyz pc)"
      "length (get_shs_dc pc) = length (get_xyz pc)"
      "length (get_shs_rest pc) = length (get_xyz pc)"
    and a: "0 \<le> appearance_id cam" "nat (appearance_id cam) < length (weight (embedding m))"
    and sh1: "\<forall>deg ds shs. length (spherical_harmonics ext deg ds shs None) = length ds"
    and sh2: "\<forall>deg ds dc rest.
        length (spherical_harmonics_decomposed ext deg ds dc rest None) = length ds"
    and net: "\<forall>inp. length (network m inp) = length inp"
    and enc: "is_view_dependent (model_config m) \<longrightarrow>
           (\<exists>enc. view_direction_encoding m = Some enc \<and> (\<forall>ds. length (enc ds) = length ds))"
  shows "\<exists>rgbs features xyz view_directions colours out.
     get_rgbs ext self cam pc projections vis (Some False) =
       Inr (rgbs, [ModelCall features (appearance_id cam) view_directions]) \<and>
     mask_select vis (get_appearance_features pc) = Inr features \<and>
     mask_select vis (get_xyz pc) = Inr xyz \<and>
     view_directions =
       map vnormalize (map (\<lambda>p. vzip (-) p (viewpoint_camera_center cam)) xyz) \<and>
     selective_sh ext pc view_directions vis = Inr colours \<and>
     Model_forward m features (appearance_id cam) view_directions = Inr out \<and>
     length rgbs = n_gaussians pc \<and>
     (\<forall>i. i < n_gaussians pc \<and> \<not> vis ! i \<longrightarrow> rgbs ! i = (0, 0, 0)) \<and>
     mask_select vis rgbs =
       Inr (map2 (\<lambda>b off. vmap (\<lambda>x. min (max x 0) 1)
                    (vzip (+) (vmap (\<lambda>x. x + 1 / 2) b) (vmap (\<lambda>y. y * 2 - 1) off)))
              colours out)"
proof -
  define k where "k = length (filter id vis)"
  define xyz where "xyz = map snd (filter fst (zip vis (get_xyz pc)))"
  define dirs where
    "dirs = map vnormalize (map (\<lambda>p. vzip (-) p (viewpoint_camera_center cam)) xyz)"
  define feats where "feats = map snd (filter fst (zip vis (get_appearance_features pc)))"
  have sx: "mask_select vis (get_xyz pc) = Inr xyz"
    by (simp add: mask_select_def lv xyz_def)
  have sf: "mask_select vis (get_appearance_features pc) = Inr feats"
    by (simp add: mask_select_def lv lf feats_def)
  have ld: "length dirs = k"
    using mask_select_length(2) [OF sx] by (simp add: dirs_def k_def)
  have lfe: "length feats = k"
    using mask_select_length(2) [OF sf] by (simp add: k_def)
  from selective_sh_rows [of vis pc ext dirs] ls lv sh1 sh2
  obtain colours where sc: "selective_sh ext pc dirs vis = Inr colours"
    and lc: "length colours = k"
    by (auto simp: ld)
  from Model_forward_rows [OF a net enc, of dirs feats] ld lfe
  obtain out where mf: "Model_forward m feats (appearance_id cam) dirs = Inr out"
    and lo: "length out = k"
    by auto
  define vals where "vals = map (vmap (\<lambda>x. min (max x 0) 1))
    (map2 (vzip (+)) (map (vmap (\<lambda>x. x + 1 / 2)) colours) (map (vmap (\<lambda>y. y * 2 - 1)) out))"
  define rgbs where "rgbs = scatter vis (replicate (n_gaussians pc) (0, 0, 0)) vals"
  have lvals: "length vals = k"
    by (simp add: vals_def lc lo)
  have bc: "broadcast2 ShapeError (vzip (+)) (map (vmap (\<lambda>x. x + 1 / 2)) colours)
      (map (vmap (\<lambda>y. y * 2 - 1)) out) =
      Inr (map2 (vzip (+)) (map (vmap (\<lambda>x. x + 1 / 2)) colours) (map (vmap (\<lambda>y. y * 2 - 1)) out))"
    by (simp add: broadcast2_def lc lo)
  have lz: "length vis = length (replicate (n_gaussians pc) ((0, 0, 0) :: vec3))"
    by (simp add: n_gaussians_def lv)
  have ma: "mask_assign vis (replicate (n_gaussians pc) (0, 0, 0)) vals = Inr rgbs"
    using lvals lv by (simp add: mask_assign_def n_gaussians_def k_def rgbs_def Let_def)
  have d2: "map (vnormalize \<circ> (\<lambda>p. vzip (-) p (viewpoint_camera_center cam))) xyz = dirs"
    by (simp add: dirs_def)
  have v2: "map (vmap (\<lambda>x. min (max x 0) 1) \<circ> (\<lambda>(x, y). vzip (+) x y))
          (zip (map (vmap (\<lambda>x. x + 1 / 2)) colours) (map (vmap (\<lambda>y. y * 2 - 1)) out)) = vals"
    by (simp add: vals_def)
  have run: "get_rgbs ext self cam pc projections vis (Some False) =
       Inr (rgbs, [ModelCall feats (appearance_id cam) dirs])"
    by (simp add: get_rgbs_def sx Let_def d2 sc sf m mf bc v2 ma)
  have lr: "length rgbs = n_gaussians pc"
    by (simp add: rgbs_def length_scatter)
  have zero: "rgbs ! i = (0, 0, 0)" if "i < n_gaussians pc \<and> \<not> vis ! i" for i
  proof -
    from that have i: "i < length (replicate (n_gaussians pc) ((0, 0, 0) :: vec3))"
      and v: "\<not> vis ! i" by simp_all
    from scatter_nth_unmasked [OF lz i v, of vals] that show ?thesis
      by (simp add: rgbs_def)
  qed
  have "map snd (filter fst (zip vis rgbs)) = vals"
    unfolding rgbs_def using lz lvals [unfolded k_def] by (rule gather_scatter)
  then have sel: "mask_select vis rgbs = Inr vals"
    using lr lv by (simp add: mask_select_def n_gaussians_def)
  have vals': "vals = map2 (\<lambda>b off. vmap (\<lambda>x. min (max x 0) 1)
                    (vzip (+) (vmap (\<lambda>x. x + 1 / 2) b) (vmap (\<lambda>y. y * 2 - 1) off)))
              colours out"
    by (simp add: vals_def zip_map1 zip_map2 split_def)
  show ?thesis
    using run sf sx sc mf lr zero sel
    unfolding vals' dirs_def
    by (intro exI [of _ rgbs] exI [of _ feats] exI [of _ xyz] exI [of _ dirs]
        exI [of _ colours] exI [of _ out]) (simp add: dirs_def)
qed


section \<open>The claims about the camera batch\<close>

text \<open>
  Claim C1. For every camera batch that the constructor returns and every camera \<open>b\<close>
  of it, the combined matrix \<open>full_projection\<close> is the matrix product of the stored
  \<open>world_to_camera\<close> with the stored \<open>projection\<close>, world-to-camera on the left:
  entry \<open>(i, j)\<close> is the sum over \<open>k\<close> of \<open>world_to_camera[i, k] * projection[k, j]\<close>.
  The three arrays have the same batch size.
\<close>

theorem full_projection_is_w2c_times_projection:
  assumes "Cameras_init Rs Ts fxs fys cxs cys ws hs aes dps cts = Inr c"
    and "b < length (full_projection c)" and "i < 4" and "j < 4"
  shows "length (world_to_camera c) = length (full_projection c)
       \<and> length (projection c) = length (full_projection c)
       \<and> full_projection c ! b = matmul4 (world_to_camera c ! b) (projection c ! b)
       \<and> entry4 (full_projection c ! b) i j =
           (\<Sum>k<4. entry4 (world_to_camera c ! b) i k * entry4 (projection c ! b) k j)"
  using assms unfolding Cameras_init_def by (rule post_init_full_projection)

text \<open>
  The camera with identity rotation, translation \<open>(1, 2, 3)\<close>, focal lengths 1 and a
  2x2 image: the combined matrix is the product in the stated order, and differs from
  the product in the reverse order.
\<close>

theorem full_projection_is_w2c_times_projection_witness:
  "\<exists>c. Cameras_init [((1, 0, 0), (0, 1, 0), (0, 0, 1))] [(1, 2, 3)] [1] [1] [0] [0] [2] [2] [0]
          None [0] = Inr c
     \<and> world_to_camera c = [((1, 0, 0, 0), (0, 1, 0, 0), (0, 0, 1, 0), (1, 2, 3, 1))]
     \<and> projection c =
         [((1, 0, 0, 0), (0, 1, 0, 0), (0, 0, 10000 / 9999, 1), (0, 0, - (100 / 9999), 0))]
     \<and> entry4 (full_projection c ! 0) 3 2 =
         (\<Sum>k<4. entry4 (world_to_camera c ! 0) 3 k * entry4 (projection c ! 0) k 2)
     \<and> entry4 (full_projection c ! 0) 3 2 = 29900 / 9999
     \<and> full_projection c ! 0 \<noteq> matmul4 (projection c ! 0) (world_to_camera c ! 0)"
proof -
  define r where "r = Cameras_init [((1, 0, 0), (0, 1, 0), (0, 0, 1))] [(1, 2, 3)] [1] [1] [0] [0]
    [2] [2] [0] None [0]"
  have "\<exists>c. r = Inr c" unfolding r_def by (simp add: camera_eval)
  then obtain c where c: "r = Inr c" ..
  have w: "world_to_camera c = [((1, 0, 0, 0), (0, 1, 0, 0), (0, 0, 1, 0), (1, 2, 3, 1))]"
    and p: "projection c =
      [((1, 0, 0, 0), (0, 1, 0, 0), (0, 0, 10000 / 9999, 1), (0, 0, - (100 / 9999), 0))]"
    and f: "full_projection c =
      [((1, 0, 0, 0), (0, 1, 0, 0), (0, 0, 10000 / 9999, 1), (1, 2, 29900 / 9999, 3))]"
    using c unfolding r_def by (auto simp: camera_eval)
  have b: "0 < length (full_projection c)" by (simp add: f)
  have ij: "(3::nat) < 4" "(2::nat) < 4" by simp_all
  have "entry4 (full_projection c ! 0) 3 2 =
         (\<Sum>k<4. entry4 (world_to_camera c ! 0) 3 k * entry4 (projection c ! 0) k 2)"
    using full_projection_is_w2c_times_projection [OF c [unfolded r_def] b ij]
    by blast
  then show ?thesis
    using c w p f unfolding r_def by (simp add: entry4_def)
qed

text \<open>
  Claim C2. For every camera batch that the constructor returns and every camera \<open>b\<close>,
  the stored \<open>world_to_camera\<close> is the transpose of the matrix with R in the top-left
  3x3 block, T in the top-right column and bottom row \<open>[0, 0, 0, 1]\<close>; the library
  inverse of that stored matrix exists, and \<open>camera_center\<close> is row 3, columns 0..2 of
  it. The inverse is the general one: any matrix \<open>N\<close> with \<open>N * world_to_camera = 1\<close>
  is the matrix the code inverts to, whatever R is (no orthonormality is used).
\<close>

theorem camera_center_is_translation_row_of_inverse:
  assumes "Cameras_init Rs Ts fxs fys cxs cys ws hs aes dps cts = Inr c"
    and "b < length Rs"
    and "matmul4 N (world_to_camera c ! b) = eye4"
  shows "length (world_to_camera c) = length Rs
       \<and> length (camera_center c) = length Rs
       \<and> world_to_camera c ! b = transpose4 (pose4 (Rs ! b) (bget Ts b))
       \<and> inv4 (world_to_camera c ! b) = Inr N
       \<and> camera_center c ! b = translation_row N"
proof -
  note built = assms(1) [unfolded Cameras_init_def]
  have "b < length (R \<lparr>R = Rs, T = Ts, fx = fxs, fy = fys, fov_x = [], fov_y = [], cx = cxs,
      cy = cys, width = ws, height = hs, appearance_embedding = aes, distortion_params = dps,
      camera_type = cts, world_to_camera = [], projection = [], full_projection = [],
      camera_center = []\<rparr>)"
    using assms(2) by simp
  from post_init_camera_center [OF built this assms(3)] show ?thesis
    by auto
qed

text \<open>
  A camera whose rotation is not orthonormal (a shear with a scaling), translation
  \<open>(1, 2, 3)\<close>: the inverse of the stored matrix is written out, and its translation
  row \<open>(1/2, - 2, - 3)\<close> is the camera centre.
\<close>

theorem camera_center_is_translation_row_of_inverse_witness:
  "\<exists>c. Cameras_init [((2, 1, 0), (0, 1, 0), (0, 0, 1))] [(1, 2, 3)] [1] [1] [0] [0] [2] [2] [0]
          None [0] = Inr c
     \<and> world_to_camera c ! 0 = ((2, 0, 0, 0), (1, 1, 0, 0), (0, 0, 1, 0), (1, 2, 3, 1))
     \<and> matmul4 ((1 / 2, 0, 0, 0), (- 1 / 2, 1, 0, 0), (0, 0, 1, 0), (1 / 2, - 2, - 3, 1))
          (world_to_camera c ! 0) = eye4
     \<and> camera_center c ! 0 = (1 / 2, - 2, - 3)"
proof -
  define r where "r = Cameras_init [((2, 1, 0), (0, 1, 0), (0, 0, 1))] [(1, 2, 3)] [1] [1] [0] [0]
    [2] [2] [0] None [0]"
  have "\<exists>c. r = Inr c" unfolding r_def by (simp add: camera_eval)
  then obtain c where c: "r = Inr c" ..
  have w: "world_to_camera c = [((2, 0, 0, 0), (1, 1, 0, 0), (0, 0, 1, 0), (1, 2, 3, 1))]"
    using c unfolding r_def by (auto simp: camera_eval)
  have m: "matmul4 ((1 / 2, 0, 0, 0), (- 1 / 2, 1, 0, 0), (0, 0, 1, 0), (1 / 2, - 2, - 3, 1))
          (world_to_camera c ! 0) = eye4"
    by (simp add: w eye4_def)
  have "camera_center c ! 0 = (1 / 2, - 2, - 3)"
    using camera_center_is_translation_row_of_inverse [OF c [unfolded r_def] _ m] by simp
  then show ?thesis
    using c w m unfolding r_def by simp
qed

text \<open>
  Claim C3. For every camera \<open>i\<close> of a constructed batch with positive focal lengths
  and positive image dimensions, the fields of view are
  \<open>2 * atan ((dimension / 2) / focal_length)\<close>, separately for x (width, fx) and y
  (height, fy), and the focal length reconstructed as \<open>(dimension / 2) / tan (fov / 2)\<close>
  is the original one. Entries are real numbers; a length-1 array counts for every
  camera, as broadcasting has it.
\<close>

theorem fov_focal_roundtrip:
  assumes "Cameras_init Rs Ts fxs fys cxs cys ws hs aes dps cts = Inr c"
    and "i < length (fov_x c)" and "i < length (fov_y c)"
    and "0 < bget fxs i" and "0 < bget ws i"
    and "0 < bget fys i" and "0 < bget hs i"
  shows "fov_x c ! i = 2 * arctan ((bget ws i / 2) / bget fxs i)
       \<and> fov_y c ! i = 2 * arctan ((bget hs i / 2) / bget fys i)
       \<and> focal_from_fov (fov_x c ! i) (bget ws i) = bget fxs i
       \<and> focal_from_fov (fov_y c ! i) (bget hs i) = bget fys i"
  using post_init_fov_roundtrip [OF assms(1) [unfolded Cameras_init_def] assms(2,3)] assms(4-7)
  by auto

theorem fov_focal_roundtrip_witness:
  "\<exists>c. Cameras_init [((1, 0, 0), (0, 1, 0), (0, 0, 1))] [(1, 2, 3)] [3] [5] [0] [0] [4] [6] [0]
          None [0] = Inr c
     \<and> fov_x c = [2 * arctan (2 / 3)] \<and> fov_y c = [2 * arctan (3 / 5)]
     \<and> focal_from_fov (fov_x c ! 0) 4 = 3 \<and> focal_from_fov (fov_y c ! 0) 6 = 5"
proof -
  define r where "r = Cameras_init [((1, 0, 0), (0, 1, 0), (0, 0, 1))] [(1, 2, 3)] [3] [5] [0] [0]
    [4] [6] [0] None [0]"
  have "\<exists>c. r = Inr c" unfolding r_def by (simp add: camera_eval)
  then obtain c where c: "r = Inr c" ..
  have f: "fov_x c = [2 * arctan (2 / 3)]" "fov_y c = [2 * arctan (3 / 5)]"
    using c unfolding r_def by (auto simp: camera_eval)
  have "focal_from_fov (fov_x c ! 0) 4 = 3 \<and> focal_from_fov (fov_y c ! 0) 6 = 5"
    using fov_focal_roundtrip [OF c [unfolded r_def], of 0] by (simp add: f bget_def)
  then show ?thesis
    using c f unfolding r_def by simp
qed

text \<open>
  Claim C4, as stated: a batch whose arrays have mismatched lengths is refused with a
  dimension-mismatch error before any matrix math, and nothing is broadcast. The
  constructor has no such check. Here R holds two cameras, T one, cx three, cy and
  appearance_embedding one, camera_type none: the batch is built, and the single
  translation has been broadcast to both cameras.
\<close>

theorem construction_accepts_mismatched_lengths:
  "\<not> isl (Cameras_init [((1, 0, 0), (0, 1, 0), (0, 0, 1)), ((1, 0, 0), (0, 1, 0), (0, 0, 1))]
       [(1, 2, 3)] [1, 1] [1, 1] [0, 0, 0] [0] [2, 2] [2, 2] [0] None [])
   \<and> camera_center (projr
       (Cameras_init [((1, 0, 0), (0, 1, 0), (0, 0, 1)), ((1, 0, 0), (0, 1, 0), (0, 0, 1))]
          [(1, 2, 3)] [1, 1] [1, 1] [0, 0, 0] [0] [2, 2] [2, 2] [0] None []))
     = [(- 1, - 2, - 3), (- 1, - 2, - 3)]"
  by (simp add: camera_eval)

text \<open>
  Claim C4, amended. Construction validates nothing of its own: it fails with a
  dimension-mismatch error exactly when one of its tensor operations rejects the
  shapes, and the error is raised by that operation, after the derivations before it
  have run:
  \<^item> in the field-of-view computation, when width and fx, or height and fy, have
    different lengths neither of which is 1;
  \<^item> else in the world-to-camera assignment, when T's length is neither R's leading
    dimension nor 1;
  \<^item> else in the projection assignment, when the length of fov_x is neither that of
    fov_y nor 1;
  \<^item> else in the batched product, when R's leading dimension differs from the length
    of fov_y.
  Arrays of length 1 are broadcast otherwise, and the lengths of cx, cy,
  appearance_embedding, distortion_params and camera_type are never looked at.
\<close>

theorem dimension_mismatch_only_from_tensor_operations:
  "Cameras_init Rs Ts fxs fys cxs cys ws hs aes dps cts = Inl (DimensionMismatch s) \<longleftrightarrow>
     (s = FovStage \<and>
        \<not> (broadcastable (length ws) (length fxs) \<and> broadcastable (length hs) (length fys)))
     \<or> (broadcastable (length ws) (length fxs) \<and> broadcastable (length hs) (length fys) \<and>
         ((s = W2cStage \<and> length Ts \<noteq> length Rs \<and> length Ts \<noteq> 1)
          \<or> ((length Ts = length Rs \<or> length Ts = 1) \<and>
              ((s = ProjectionStage \<and>
                  broadcast_len (length ws) (length fxs) \<noteq> broadcast_len (length hs) (length fys) \<and>
                  broadcast_len (length ws) (length fxs) \<noteq> 1)
               \<or> ((broadcast_len (length ws) (length fxs) = broadcast_len (length hs) (length fys) \<or>
                    broadcast_len (length ws) (length fxs) = 1) \<and>
                   s = FullProjectionStage \<and>
                   length Rs \<noteq> broadcast_len (length hs) (length fys))))))"
  unfolding Cameras_init_def post_init_dimension_mismatch by simp

text \<open>
  Three translations for two cameras: the world-to-camera assignment raises, the
  field-of-view computation before it did not.
\<close>

theorem dimension_mismatch_only_from_tensor_operations_witness:
  "Cameras_init [((1, 0, 0), (0, 1, 0), (0, 0, 1)), ((1, 0, 0), (0, 1, 0), (0, 0, 1))]
     [(1, 2, 3), (1, 2, 3), (1, 2, 3)] [1, 1] [1, 1] [0, 0] [0, 0] [2, 2] [2, 2] [0, 0] None [0, 0]
     = Inl (DimensionMismatch W2cStage)
   \<and> Cameras_init [((1, 0, 0), (0, 1, 0), (0, 0, 1)), ((1, 0, 0), (0, 1, 0), (0, 0, 1))]
     [(1, 2, 3), (1, 2, 3), (1, 2, 3)] [1, 1] [1, 1] [0, 0] [0, 0] [2, 2] [2, 2] [0, 0] None [0, 0]
     \<noteq> Inl (DimensionMismatch FovStage)"
  using dimension_mismatch_only_from_tensor_operations
    [of "[((1, 0, 0), (0, 1, 0), (0, 0, 1)), ((1, 0, 0), (0, 1, 0), (0, 0, 1))]"
        "[(1, 2, 3), (1, 2, 3), (1, 2, 3)]" "[1, 1]" "[1, 1]" "[0, 0]" "[0, 0]" "[2, 2]" "[2, 2]"
        "[0, 0]" None "[0, 0]" W2cStage]
    dimension_mismatch_only_from_tensor_operations
    [of "[((1, 0, 0), (0, 1, 0), (0, 0, 1)), ((1, 0, 0), (0, 1, 0), (0, 0, 1))]"
        "[(1, 2, 3), (1, 2, 3), (1, 2, 3)]" "[1, 1]" "[1, 1]" "[0, 0]" "[0, 0]" "[2, 2]" "[2, 2]"
        "[0, 0]" None "[0, 0]" FovStage]
  by (simp add: broadcastable_def broadcast_len_def)

section \<open>The claims about the appearance-embedding renderer\<close>

text \<open>
  Claim C5. In a training render at a step below the configured \<open>warm_up\<close> threshold
  (so at \<open>warm_up - 1\<close>), the appearance model is not invoked at all, and the result is
  the spherical-harmonics colour of all primitives, offset by 0.5 and clamped from
  below at 0. At every step from \<open>warm_up\<close> on, for a well-shaped primitive set,
  external kernels that return one row per input row and an appearance identifier
  inside the table, the appearance model is invoked exactly once, on the features of
  the visible primitives, the camera's appearance identifier and the normalized view
  directions of the visible primitives; the colour of a visible primitive is its base
  colour (spherical harmonics plus 0.5) plus the residual (model output times 2 minus
  1) clamped to \<open>[0, 1]\<close>, and the colour of an invisible one is zero.
\<close>

theorem warm_up_boundary:
  "(step < warm_up (optimization (config self)) \<longrightarrow>
      training_forward ext self step cam pc projections vis =
        Inr (map (vmap (\<lambda>x. max x 0))
               (map (vmap (\<lambda>x. x + 1 / 2))
                  (sh ext pc (map (\<lambda>p. vzip (-) p (viewpoint_camera_center cam)) (get_xyz pc))
                     (Some vis))),
             []))
   \<and> (warm_up (optimization (config self)) \<le> step \<and>
      self_model self = Some m \<and>
      length vis = length (get_xyz pc) \<and>
      length (get_appearance_features pc) = length (get_xyz pc) \<and>
      length (get_shs pc) = length (get_xyz pc) \<and>
      length (get_shs_dc pc) = length (get_xyz pc) \<and>
      length (get_shs_rest pc) = length (get_xyz pc) \<and>
      0 \<le> appearance_id cam \<and> nat (appearance_id cam) < length (weight (embedding m)) \<and>
      (\<forall>deg ds shs. length (spherical_harmonics ext deg ds shs None) = length ds) \<and>
      (\<forall>deg ds dc rest.
          length (spherical_harmonics_decomposed ext deg ds dc rest None) = length ds) \<and>
      (\<forall>inp. length (network m inp) = length inp) \<and>
      (is_view_dependent (model_config m) \<longrightarrow>
         (\<exists>enc. view_direction_encoding m = Some enc \<and> (\<forall>ds. length (enc ds) = length ds)))
      \<longrightarrow>
      (\<exists>rgbs features xyz view_directions colours out.
         training_forward ext self step cam pc projections vis =
           Inr (rgbs, [ModelCall features (appearance_id cam) view_directions]) \<and>
         mask_select vis (get_appearance_features pc) = Inr features \<and>
         mask_select vis (get_xyz pc) = Inr xyz \<and>
         view_directions =
           map vnormalize (map (\<lambda>p. vzip (-) p (viewpoint_camera_center cam)) xyz) \<and>
         selective_sh ext pc view_directions vis = Inr colours \<and>
         Model_forward m features (appearance_id cam) view_directions = Inr out \<and>
         length rgbs = n_gaussians pc \<and>
         (\<forall>i. i < n_gaussians pc \<and> \<not> vis ! i \<longrightarrow> rgbs ! i = (0, 0, 0)) \<and>
         mask_select vis rgbs =
           Inr (map2 (\<lambda>b off. vmap (\<lambda>x. min (max x 0) 1)
                        (vzip (+) (vmap (\<lambda>x. x + 1 / 2) b) (vmap (\<lambda>y. y * 2 - 1) off)))
                  colours out)))"
proof (intro conjI impI)
  assume "step < warm_up (optimization (config self))"
  then show "training_forward ext self step cam pc projections vis =
        Inr (map (vmap (\<lambda>x. max x 0))
               (map (vmap (\<lambda>x. x + 1 / 2))
                  (sh ext pc (map (\<lambda>p. vzip (-) p (viewpoint_camera_center cam)) (get_xyz pc))
                     (Some vis))),
             [])"
    by (simp add: training_forward_def forward_def get_rgbs_warm_up)
next
  assume h: "warm_up (optimization (config self)) \<le> step \<and>
      self_model self = Some m \<and>
      length vis = length (get_xyz pc) \<and>
      length (get_appearance_features pc) = length (get_xyz pc) \<and>
      length (get_shs pc) = length (get_xyz pc) \<and>
      length (get_shs_dc pc) = length (get_xyz pc) \<and>
      length (get_shs_rest pc) = length (get_xyz pc) \<and>
      0 \<le> appearance_id cam \<and> nat (appearance_id cam) < length (weight (embedding m)) \<and>
      (\<forall>deg ds shs. length (spherical_harmonics ext deg ds shs None) = length ds) \<and>
      (\<forall>deg ds dc rest.
          length (spherical_harmonics_decomposed ext deg ds dc rest None) = length ds) \<and>
      (\<forall>inp. length (network m inp) = length inp) \<and>
      (is_view_dependent (model_config m) \<longrightarrow>
         (\<exists>enc. view_direction_encoding m = Some enc \<and> (\<forall>ds. length (enc ds) = length ds)))"
  then have flag: "\<not> step < warm_up (optimization (config self))" by simp
  have run: "training_forward ext self step cam pc projections vis =
      get_rgbs ext self cam pc projections vis (Some False)"
    using flag by (simp add: training_forward_def forward_def)
  from h have "\<exists>rgbs features xyz view_directions colours out.
     get_rgbs ext self cam pc projections vis (Some False) =
       Inr (rgbs, [ModelCall features (appearance_id cam) view_directions]) \<and>
     mask_select vis (get_appearance_features pc) = Inr features \<and>
     mask_select vis (get_xyz pc) = Inr xyz \<and>
     view_directions =
       map vnormalize (map (\<lambda>p. vzip (-) p (viewpoint_camera_center cam)) xyz) \<and>
     selective_sh ext pc view_directions vis = Inr colours \<and>
     Model_forward m features (appearance_id cam) view_directions = Inr out \<and>
     length rgbs = n_gaussians pc \<and>
     (\<forall>i. i < n_gaussians pc \<and> \<not> vis ! i \<longrightarrow> rgbs ! i = (0, 0, 0)) \<and>
     mask_select vis rgbs =
       Inr (map2 (\<lambda>b off. vmap (\<lambda>x. min (max x 0) 1)
                    (vzip (+) (vmap (\<lambda>x. x + 1 / 2) b) (vmap (\<lambda>y. y * 2 - 1) off)))
              colours out)"
    by (intro get_rgbs_residual) simp_all
  then show "\<exists>rgbs features xyz view_directions colours out.
         training_forward ext self step cam pc projections vis =
           Inr (rgbs, [ModelCall features (appearance_id cam) view_directions]) \<and>
         mask_select vis (get_appearance_features pc) = Inr features \<and>
         mask_select vis (get_xyz pc) = Inr xyz \<and>
         view_directions =
           map vnormalize (map (\<lambda>p. vzip (-) p (viewpoint_camera_center cam)) xyz) \<and>
         selective_sh ext pc view_directions vis = Inr colours \<and>
         Model_forward m features (appearance_id cam) view_directions = Inr out \<and>
         length rgbs = n_gaussians pc \<and>
         (\<forall>i. i < n_gaussians pc \<and> \<not> vis ! i \<longrightarrow> rgbs ! i = (0, 0, 0)) \<and>
         mask_select vis rgbs =
           Inr (map2 (\<lambda>b off. vmap (\<lambda>x. min (max x 0) 1)
                        (vzip (+) (vmap (\<lambda>x. x + 1 / 2) b) (vmap (\<lambda>y. y * 2 - 1) off)))
                  colours out)"
    unfolding run .
qed

text \<open>
  Two primitives, the first visible, with the default threshold 4000. The kernels
  return the colour \<open>(1/4, 1, - 1)\<close> and the network \<open>(1/2, 1/2, 1)\<close> for every row.
  At step 3999 no model call is made and both primitives get the base colour clamped
  from below; at step 4000 the model is called once on the visible primitive.
\<close>

theorem warm_up_boundary_witness:
  "let ext = \<lparr>spherical_harmonics = (\<lambda>deg ds shs ms. map (\<lambda>d. (1 / 4, 1, - 1)) ds),
                spherical_harmonics_decomposed =
                  (\<lambda>deg ds dc rest ms. map (\<lambda>d. (1 / 4, 1, - 1)) ds),
                get_network_with_skip_layers =
                  (\<lambda>t n_in n_out layers neurons skips inp. map (\<lambda>r. (1 / 2, 1 / 2, 1)) inp),
                positional_encoding = (\<lambda>freq ds. map (\<lambda>d. []) ds),
                get_output_n_channels = (\<lambda>freq. 0),
                embedding_init = (\<lambda>n d. replicate n (replicate d 0))\<rparr>;
       self = \<lparr>config = GSplatAppearanceEmbeddingRenderer_default,
                self_model = Some \<lparr>model_config = ModelConfig_default,
                  embedding = \<lparr>num_embeddings = 1, embedding_dim = 1, weight = [[0]]\<rparr>,
                  view_direction_encoding = None,
                  network = (\<lambda>inp. map (\<lambda>r. (1 / 2, 1 / 2, 1)) inp)\<rparr>,
                trace = []\<rparr>;
       pc = \<lparr>get_xyz = [(1, 0, 0), (0, 2, 0)], is_pre_activated = False, active_sh_degree = 0,
              get_shs = [[], []], get_shs_dc = [[], []], get_shs_rest = [[], []],
              get_appearance_features = [[1], [2]]\<rparr>;
       cam = \<lparr>viewpoint_camera_center = (0, 0, 0), appearance_id = 0\<rparr>
   in training_forward ext self 3999 cam pc () [True, False] =
        Inr ([(3 / 4, 3 / 2, 0), (3 / 4, 3 / 2, 0)], [])
    \<and> training_forward ext self 4000 cam pc () [True, False] =
        Inr ([(3 / 4, 1, 1 / 2), (0, 0, 0)], [ModelCall [[1]] 0 [(1, 0, 0)]])"
proof -
  define ext where "ext = \<lparr>spherical_harmonics = (\<lambda>deg ds shs ms. map (\<lambda>d. (1 / 4, 1, - 1 :: real)) ds),
                spherical_harmonics_decomposed =
                  (\<lambda>deg ds dc rest ms. map (\<lambda>d. (1 / 4, 1, - 1 :: real)) ds),
                get_network_with_skip_layers =
                  (\<lambda>t n_in n_out layers neurons skips inp. map (\<lambda>r. (1 / 2, 1 / 2, 1 :: real)) inp),
                positional_encoding = (\<lambda>freq ds. map (\<lambda>d. []) ds),
                get_output_n_channels = (\<lambda>freq. 0),
                embedding_init = (\<lambda>n d. replicate n (replicate d 0))\<rparr>"
  define m where "m = \<lparr>model_config = ModelConfig_default,
                  embedding = \<lparr>num_embeddings = 1, embedding_dim = 1, weight = [[0]]\<rparr>,
                  view_direction_encoding = None,
                  network = (\<lambda>inp. map (\<lambda>r. (1 / 2, 1 / 2, 1 :: real)) inp)\<rparr>"
  define self where "self = \<lparr>config = GSplatAppearanceEmbeddingRenderer_default,
                self_model = Some m, trace = []\<rparr>"
  define pc where "pc = \<lparr>get_xyz = [(1, 0, 0), (0, 2, 0)], is_pre_activated = False,
              active_sh_degree = 0,
              get_shs = [[], []], get_shs_dc = [[], []], get_shs_rest = [[], []],
              get_appearance_features = [[1], [2]]\<rparr>"
  define cam where "cam = \<lparr>viewpoint_camera_center = (0, 0, 0), appearance_id = 0\<rparr>"
  have w: "warm_up (optimization (config self)) = 4000"
    by (simp add: self_def GSplatAppearanceEmbeddingRenderer_default_def
        OptimizationConfig_default_def)
  note t = warm_up_boundary [where ext = ext and self = self and cam = cam and pc = pc
      and projections = "()" and vis = "[True, False]" and m = m]
  have before: "training_forward ext self 3999 cam pc () [True, False] =
        Inr ([(3 / 4, 3 / 2, 0), (3 / 4, 3 / 2, 0)], [])"
    using t [where step = 3999]
    by (simp add: w sh_def pc_def ext_def cam_def)
  have hyp: "warm_up (optimization (config self)) \<le> 4000 \<and>
      self_model self = Some m \<and>
      length [True, False] = length (get_xyz pc) \<and>
      length (get_appearance_features pc) = length (get_xyz pc) \<and>
      length (get_shs pc) = length (get_xyz pc) \<and>
      length (get_shs_dc pc) = length (get_xyz pc) \<and>
      length (get_shs_rest pc) = length (get_xyz pc) \<and>
      0 \<le> appearance_id cam \<and> nat (appearance_id cam) < length (weight (embedding m)) \<and>
      (\<forall>deg ds shs. length (spherical_harmonics ext deg ds shs None) = length ds) \<and>
      (\<forall>deg ds dc rest.
          length (spherical_harmonics_decomposed ext deg ds dc rest None) = length ds) \<and>
      (\<forall>inp. length (network m inp) = length inp) \<and>
      (is_view_dependent (model_config m) \<longrightarrow>
         (\<exists>enc. view_direction_encoding m = Some enc \<and> (\<forall>ds. length (enc ds) = length ds)))"
    using w by (simp add: self_def pc_def cam_def m_def ext_def ModelConfig_default_def)
  from t [where step = 4000] hyp obtain rgbs features xyz view_directions colours out where
    r: "training_forward ext self 4000 cam pc () [True, False] =
           Inr (rgbs, [ModelCall features (appearance_id cam) view_directions])"
    and f: "mask_select [True, False] (get_appearance_features pc) = Inr features"
    and x: "mask_select [True, False] (get_xyz pc) = Inr xyz"
    and d: "view_directions =
           map vnormalize (map (\<lambda>p. vzip (-) p (viewpoint_camera_center cam)) xyz)"
    and c: "selective_sh ext pc view_directions [True, False] = Inr colours"
    and o: "Model_forward m features (appearance_id cam) view_directions = Inr out"
    and l: "length rgbs = n_gaussians pc"
    and z: "\<forall>i. i < n_gaussians pc \<and> \<not> [True, False] ! i \<longrightarrow> rgbs ! i = (0, 0, 0)"
    and s: "mask_select [True, False] rgbs =
           Inr (map2 (\<lambda>b off. vmap (\<lambda>x. min (max x 0) 1)
                        (vzip (+) (vmap (\<lambda>x. x + 1 / 2) b) (vmap (\<lambda>y. y * 2 - 1) off)))
                  colours out)"
    by blast
  have features: "features = [[1]]"
    using f by (simp add: mask_select_def pc_def)
  have xyz: "xyz = [(1, 0, 0)]"
    using x by (simp add: mask_select_def pc_def)
  have dirs: "view_directions = [(1, 0, 0)]"
    by (simp add: d xyz cam_def)
  have colours: "colours = [(1 / 4, 1, - 1)]"
    using c by (simp add: dirs selective_sh_def mask_select_def pc_def ext_def)
  have out: "out = [(1 / 2, 1 / 2, 1)]"
    using o by (simp add: features dirs Model_forward_def embedding_lookup_def concat_last_def
        m_def cam_def ModelConfig_default_def Let_def)
  from l obtain a b where ab: "rgbs = [a, b]"
    by (cases rgbs; cases "tl rgbs") (auto simp: n_gaussians_def pc_def)
  have b: "b = (0, 0, 0)"
    using z [rule_format, of 1] by (simp add: ab n_gaussians_def pc_def)
  have a: "a = (3 / 4, 1, 1 / 2)"
    using s by (simp add: ab colours out mask_select_def)
  have after: "training_forward ext self 4000 cam pc () [True, False] =
        Inr ([(3 / 4, 1, 1 / 2), (0, 0, 0)], [ModelCall [[1]] 0 [(1, 0, 0)]])"
    using r by (simp add: ab a b features dirs cam_def)
  from before after show ?thesis
    unfolding ext_def self_def m_def pc_def cam_def by (simp add: Let_def)
qed

text \<open>
  Claim C6. When \<open>setup\<close> is given the lightning module (through which it sees the
  training data) and the configured table size is \<open>\<le> 0\<close>, the size is set to
  \<open>max_id + 1\<close>, \<open>max_id\<close> being the largest appearance identifier of the training data
  and 0 when there is none; identifiers are not negative. This one write precedes the
  allocation of the model, whose table has that many rows, and a later \<open>setup\<close>
  allocates without writing the size again. Whenever \<open>load_state_dict\<close> returns, the
  size is the row count of the saved embedding table, whatever was configured, and the
  model has been allocated with it and holds the saved table. It does return, strictly
  or not, for a dictionary whose table has the configured row width and which holds
  exactly the other tensors of the module, in their shapes. Without a lightning module
  \<open>setup\<close> leaves the module as it is: nothing is sized and nothing is allocated.
\<close>

theorem appearance_table_sizing:
  "(n_appearances (model (config self)) \<le> 0 \<and>
    0 \<le> n_appearance_embedding_dims (model (config self)) \<and>
    (\<forall>i\<in>set (observed_ids lm). 0 \<le> i) \<longrightarrow>
      (\<exists>self' m.
         setup_renderer ext stage (Some lm) self = Inr self' \<and>
         n_appearances (model (config self')) = max_id (observed_ids lm) + 1 \<and>
         self_model self' = Some m \<and>
         num_embeddings (embedding m) = max_id (observed_ids lm) + 1 \<and>
         trace self' = trace self @ [SetNAppearances (max_id (observed_ids lm) + 1),
                                     AllocateModel (max_id (observed_ids lm) + 1)] \<and>
         (\<exists>self''.
            setup_renderer ext stage' (Some lm') self' = Inr self'' \<and>
            n_appearances (model (config self'')) = max_id (observed_ids lm) + 1 \<and>
            trace self'' = trace self' @ [AllocateModel (max_id (observed_ids lm) + 1)])))
   \<and> (load_state_dict ext mext state_dict strict self = Inr restored \<longrightarrow>
      (\<exists>t n rest m.
         map_of state_dict ''model.embedding.weight'' = Some t \<and>
         tensor_shape t = n # rest \<and>
         n_appearances (model (config restored)) = int n \<and>
         self_model restored = Some m \<and>
         num_embeddings (embedding m) = int n \<and>
         weight (embedding m) = table_rows t \<and>
         length (weight (embedding m)) = n))
   \<and> (map_of state_dict ''model.embedding.weight'' = Some t \<and>
      tensor_shape t = [n, nat (n_appearance_embedding_dims (model (config self)))] \<and>
      0 \<le> n_appearance_embedding_dims (model (config self)) \<and>
      (\<forall>(k, sh)\<in>set (other_state_shapes mext ((model (config self))\<lparr>n_appearances := int n\<rparr>)).
          \<exists>t'. map_of state_dict k = Some t' \<and> tensor_shape t' = sh) \<and>
      (\<forall>k\<in>fst ` set state_dict. k = ''model.embedding.weight'' \<or>
          k \<in> fst ` set (other_state_shapes mext
                 ((model (config self))\<lparr>n_appearances := int n\<rparr>))) \<longrightarrow>
      (\<exists>self'. load_state_dict ext mext state_dict strict self = Inr self'))
   \<and> setup_renderer ext stage None self = Inr self"
proof (intro conjI impI)
  assume a: "n_appearances (model (config self)) \<le> 0 \<and>
    0 \<le> n_appearance_embedding_dims (model (config self)) \<and>
    (\<forall>i\<in>set (observed_ids lm). 0 \<le> i)"
  then have a1: "n_appearances (model (config self)) \<le> 0"
    and a2: "0 \<le> n_appearance_embedding_dims (model (config self))"
    and a3: "\<forall>i\<in>set (observed_ids lm). 0 \<le> i"
    by simp_all
  from setup_renderer_derives [OF a1 a2 a3, of ext stage] obtain self' m where
    s: "setup_renderer ext stage (Some lm) self = Inr self'"
    and n: "n_appearances (model (config self')) = max_id (observed_ids lm) + 1"
    and d: "n_appearance_embedding_dims (model (config self')) =
         n_appearance_embedding_dims (model (config self))"
    and m: "self_model self' = Some m" "num_embeddings (embedding m) = max_id (observed_ids lm) + 1"
    and t: "trace self' = trace self @ [SetNAppearances (max_id (observed_ids lm) + 1),
                                    AllocateModel (max_id (observed_ids lm) + 1)]"
    by blast
  have pos: "0 < n_appearances (model (config self'))"
    using max_id_nonneg [OF a3] by (simp add: n)
  have d': "0 \<le> n_appearance_embedding_dims (model (config self'))"
    using a2 by (simp add: d)
  from setup_renderer_keeps [OF pos d', of ext stage' lm'] obtain self'' where
    "setup_renderer ext stage' (Some lm') self' = Inr self''"
    "n_appearances (model (config self'')) = max_id (observed_ids lm) + 1"
    "trace self'' = trace self' @ [AllocateModel (max_id (observed_ids lm) + 1)]"
    by (auto simp: n)
  with s n m t show "\<exists>self' m.
         setup_renderer ext stage (Some lm) self = Inr self' \<and>
         n_appearances (model (config self')) = max_id (observed_ids lm) + 1 \<and>
         self_model self' = Some m \<and>
         num_embeddings (embedding m) = max_id (observed_ids lm) + 1 \<and>
         trace self' = trace self @ [SetNAppearances (max_id (observed_ids lm) + 1),
                                     AllocateModel (max_id (observed_ids lm) + 1)] \<and>
         (\<exists>self''.
            setup_renderer ext stage' (Some lm') self' = Inr self'' \<and>
            n_appearances (model (config self'')) = max_id (observed_ids lm) + 1 \<and>
            trace self'' = trace self' @ [AllocateModel (max_id (observed_ids lm) + 1)])"
    by blast
next
  assume "load_state_dict ext mext state_dict strict self = Inr restored"
  then show "\<exists>t n rest m.
         map_of state_dict ''model.embedding.weight'' = Some t \<and>
         tensor_shape t = n # rest \<and>
         n_appearances (model (config restored)) = int n \<and>
         self_model restored = Some m \<and>
         num_embeddings (embedding m) = int n \<and>
         weight (embedding m) = table_rows t \<and>
         length (weight (embedding m)) = n"
    by (rule load_state_dict_returns)
next
  assume b: "map_of state_dict ''model.embedding.weight'' = Some t \<and>
      tensor_shape t = [n, nat (n_appearance_embedding_dims (model (config self)))] \<and>
      0 \<le> n_appearance_embedding_dims (model (config self)) \<and>
      (\<forall>(k, sh)\<in>set (other_state_shapes mext ((model (config self))\<lparr>n_appearances := int n\<rparr>)).
          \<exists>t'. map_of state_dict k = Some t' \<and> tensor_shape t' = sh) \<and>
      (\<forall>k\<in>fst ` set state_dict. k = ''model.embedding.weight'' \<or>
          k \<in> fst ` set (other_state_shapes mext
                 ((model (config self))\<lparr>n_appearances := int n\<rparr>)))"
  note b1 = b [THEN conjunct1]
    and b2 = b [THEN conjunct2, THEN conjunct1]
    and b3 = b [THEN conjunct2, THEN conjunct2, THEN conjunct1]
    and b4 = b [THEN conjunct2, THEN conjunct2, THEN conjunct2, THEN conjunct1]
    and b5 = b [THEN conjunct2, THEN conjunct2, THEN conjunct2, THEN conjunct2]
  show "\<exists>self'. load_state_dict ext mext state_dict strict self = Inr self'"
    using b1 b2 b3 b4 b5 by (rule load_state_dict_ok)
next
  show "setup_renderer ext stage None self = Inr self"
    by (simp add: setup_renderer_def)
qed

text \<open>
  The default configuration (size \<open>- 1\<close>) with the identifiers 0, 3 and 1: the size
  becomes 4. For a module whose network holds a weight and a bias, restoring a saved
  state with a table of two rows and these two tensors makes the size 2; a dictionary
  that holds the table alone is refused by the strict loading.
\<close>

theorem appearance_table_sizing_witness:
  "\<forall>ext.
     (\<exists>self' m.
        setup_renderer ext ''fit''
          (Some \<lparr>appearance_group_ids = Some [(''a'', 0, 0), (''b'', 3, 1), (''c'', 1, 1 / 3)]\<rparr>)
          \<lparr>config = GSplatAppearanceEmbeddingRenderer_default, self_model = None, trace = []\<rparr>
          = Inr self' \<and>
        n_appearances (model (config self')) = 4 \<and>
        self_model self' = Some m \<and>
        num_embeddings (embedding m) = 4 \<and>
        trace self' = [SetNAppearances 4, AllocateModel 4])
     \<and> (\<exists>self' m.
        load_state_dict ext
          \<lparr>other_state_shapes = (\<lambda>cfg. [(''model.network.0.weight'', [3, 96]),
                                         (''model.network.0.bias'', [3])]),
           load_network = (\<lambda>saved net. net)\<rparr>
          [(''model.embedding.weight'', \<lparr>tensor_shape = [2, 32], tensor_data = replicate 64 0\<rparr>),
           (''model.network.0.weight'', \<lparr>tensor_shape = [3, 96], tensor_data = replicate 288 0\<rparr>),
           (''model.network.0.bias'', \<lparr>tensor_shape = [3], tensor_data = [0, 0, 0]\<rparr>)]
          True
          \<lparr>config = GSplatAppearanceEmbeddingRenderer_default, self_model = None, trace = []\<rparr>
          = Inr self' \<and>
        n_appearances (model (config self')) = 2 \<and>
        self_model self' = Some m \<and>
        num_embeddings (embedding m) = 2 \<and>
        length (weight (embedding m)) = 2)
     \<and> load_state_dict ext
          \<lparr>other_state_shapes = (\<lambda>cfg. [(''model.network.0.weight'', [3, 96]),
                                         (''model.network.0.bias'', [3])]),
           load_network = (\<lambda>saved net. net)\<rparr>
          [(''model.embedding.weight'', \<lparr>tensor_shape = [2, 32], tensor_data = replicate 64 0\<rparr>)]
          True
          \<lparr>config = GSplatAppearanceEmbeddingRenderer_default, self_model = None, trace = []\<rparr>
          = Inl RuntimeError"
proof (intro allI)
  fix ext
  define self where "self = \<lparr>config = GSplatAppearanceEmbeddingRenderer_default,
    self_model = None, trace = []\<rparr>"
  define lm where "lm = \<lparr>appearance_group_ids =
    Some [(''a'', 0, 0), (''b'', 3, 1), (''c'', 1, 1 / 3 :: real)]\<rparr>"
  define mext where "mext = \<lparr>other_state_shapes =
      (\<lambda>cfg :: ModelConfig. [(''model.network.0.weight'', [3, 96 :: nat]),
                              (''model.network.0.bias'', [3])]),
    load_network = (\<lambda>(saved :: (string \<times> tensor) list) (net :: real list list \<Rightarrow> vec3 list). net)\<rparr>"
  define sd where "sd =
     [(''model.embedding.weight'', \<lparr>tensor_shape = [2, 32], tensor_data = replicate 64 0\<rparr>),
      (''model.network.0.weight'', \<lparr>tensor_shape = [3, 96], tensor_data = replicate 288 0\<rparr>),
      (''model.network.0.bias'', \<lparr>tensor_shape = [3], tensor_data = [0, 0, 0]\<rparr>)]"
  have cfg: "n_appearances (model (config self)) = - 1"
    "n_appearance_embedding_dims (model (config self)) = 32" "trace self = []"
    by (simp_all add: self_def GSplatAppearanceEmbeddingRenderer_default_def
        ModelConfig_default_def)
  have ids: "observed_ids lm = [0, 3, 1]"
    by (simp add: lm_def observed_ids_def)
  have mx: "max_id [0, 3, 1] = 3"
    by (simp add: max_id_def)
  note t = appearance_table_sizing [where self = self and lm = lm and ext = ext
      and stage = "''fit''" and stage' = "''fit''" and lm' = lm
      and mext = mext and state_dict = sd and strict = True and n = 2
      and t = "\<lparr>tensor_shape = [2, 32], tensor_data = replicate 64 0\<rparr>"]
  from t have first: "\<exists>self' m.
        setup_renderer ext ''fit'' (Some lm) self = Inr self' \<and>
        n_appearances (model (config self')) = 4 \<and>
        self_model self' = Some m \<and>
        num_embeddings (embedding m) = 4 \<and>
        trace self' = [SetNAppearances 4, AllocateModel 4]"
    by (simp add: cfg ids mx) blast
  have "\<exists>self'. load_state_dict ext mext sd True self = Inr self'"
    using t [THEN conjunct2, THEN conjunct2, THEN conjunct1]
    by (simp add: cfg sd_def mext_def)
  then obtain restored where r: "load_state_dict ext mext sd True self = Inr restored" ..
  from t [where restored = restored, THEN conjunct2, THEN conjunct1] r
  have second: "\<exists>self' m.
        load_state_dict ext mext sd True self = Inr self' \<and>
        n_appearances (model (config self')) = 2 \<and>
        self_model self' = Some m \<and>
        num_embeddings (embedding m) = 2 \<and>
        length (weight (embedding m)) = 2"
    by (auto simp: sd_def)
  have third: "load_state_dict ext mext
      [(''model.embedding.weight'', \<lparr>tensor_shape = [2, 32], tensor_data = replicate 64 0\<rparr>)]
      True self = Inl RuntimeError"
    by (simp add: load_state_dict_def setup_model_def new_Model_def new_Embedding_def
        super_load_state_dict_def expected_state_def Let_def cfg mext_def)
  from first second third show "(\<exists>self' m.
        setup_renderer ext ''fit''
          (Some \<lparr>appearance_group_ids = Some [(''a'', 0, 0), (''b'', 3, 1), (''c'', 1, 1 / 3)]\<rparr>)
          \<lparr>config = GSplatAppearanceEmbeddingRenderer_default, self_model = None, trace = []\<rparr>
          = Inr self' \<and>
        n_appearances (model (config self')) = 4 \<and>
        self_model self' = Some m \<and>
        num_embeddings (embedding m) = 4 \<and>
        trace self' = [SetNAppearances 4, AllocateModel 4])
     \<and> (\<exists>self' m.
        load_state_dict ext
          \<lparr>other_state_shapes = (\<lambda>cfg. [(''model.network.0.weight'', [3, 96]),
                                         (''model.network.0.bias'', [3])]),
           load_network = (\<lambda>saved net. net)\<rparr>
          [(''model.embedding.weight'', \<lparr>tensor_shape = [2, 32], tensor_data = replicate 64 0\<rparr>),
           (''model.network.0.weight'', \<lparr>tensor_shape = [3, 96], tensor_data = replicate 288 0\<rparr>),
           (''model.network.0.bias'', \<lparr>tensor_shape = [3], tensor_data = [0, 0, 0]\<rparr>)]
          True
          \<lparr>config = GSplatAppearanceEmbeddingRenderer_default, self_model = None, trace = []\<rparr>
          = Inr self' \<and>
        n_appearances (model (config self')) = 2 \<and>
        self_model self' = Some m \<and>
        num_embeddings (embedding m) = 2 \<and>
        length (weight (embedding m)) = 2)
     \<and> load_state_dict ext
          \<lparr>other_state_shapes = (\<lambda>cfg. [(''model.network.0.weight'', [3, 96]),
                                         (''model.network.0.bias'', [3])]),
           load_network = (\<lambda>saved net. net)\<rparr>
          [(''model.embedding.weight'', \<lparr>tensor_shape = [2, 32], tensor_data = replicate 64 0\<rparr>)]
          True
          \<lparr>config = GSplatAppearanceEmbeddingRenderer_default, self_model = None, trace = []\<rparr>
          = Inl RuntimeError"
    unfolding self_def lm_def mext_def sd_def by blast
qed

text \<open>
  Claim C7. Each of the two schedules is to give the rate
  \<open>lr_init * final_factor ^ clamp ((t - warmup) / max_steps, 0, 1)\<close> of its group. The
  configuration declares an initial rate and a final factor for each group
  (\<open>embedding_lr_init\<close> with \<open>embedding_lr_final_factor\<close>, \<open>lr_init\<close> with \<open>lr_final_factor\<close>),
  but \<open>training_setup\<close> passes \<open>lr_final_factor\<close> to both and never reads
  \<open>embedding_lr_final_factor\<close>. In the default configuration with
  \<open>embedding_lr_final_factor = 0.5\<close>, at step 34000 (the decay has ended): the rate of
  the embedding table is \<open>0.002 * 0.1\<close>, the formula with the table's own final factor
  gives \<open>0.002 * 0.5\<close>; what the code computes is the formula with the network's
  factor. The schedule of the network follows the formula of its group.
\<close>

theorem embedding_schedule_ignores_its_final_factor:
  "let opt = OptimizationConfig_default\<lparr>embedding_lr_final_factor := 1 / 2\<rparr>;
       self = \<lparr>config = GSplatAppearanceEmbeddingRenderer_default\<lparr>optimization := opt\<rparr>,
                self_model = Some \<lparr>model_config = ModelConfig_default,
                  embedding = \<lparr>num_embeddings = 1, embedding_dim = 1, weight = [[0]]\<rparr>,
                  view_direction_encoding = None,
                  network = (\<lambda>inp. map (\<lambda>r. (0, 0, 0)) inp)\<rparr>,
                trace = []\<rparr>
   in \<exists>optimizers embedding_scheduler network_scheduler.
        training_setup self = Inr (optimizers, [embedding_scheduler, network_scheduler]) \<and>
        scheduler_lr embedding_scheduler 34000 = Inr (2 / 10000) \<and>
        scheduled_rate (embedding_lr_init opt) (embedding_lr_final_factor opt)
          (warm_up opt) (max_steps opt) 34000 = 1 / 1000 \<and>
        scheduler_lr embedding_scheduler 34000 =
          Inr (scheduled_rate (embedding_lr_init opt) (lr_final_factor opt)
                 (warm_up opt) (max_steps opt) 34000) \<and>
        scheduler_lr network_scheduler 34000 =
          Inr (scheduled_rate (lr_init opt) (lr_final_factor opt)
                 (warm_up opt) (max_steps opt) 34000)"
proof -
  define opt where "opt = OptimizationConfig_default\<lparr>embedding_lr_final_factor := 1 / 2\<rparr>"
  define m where "m = \<lparr>model_config = ModelConfig_default,
                  embedding = \<lparr>num_embeddings = 1, embedding_dim = 1, weight = [[0]]\<rparr>,
                  view_direction_encoding = None,
                  network = (\<lambda>inp :: real list list. map (\<lambda>r. (0, 0, 0 :: real)) inp)\<rparr>"
  define self where "self = \<lparr>config = GSplatAppearanceEmbeddingRenderer_default\<lparr>optimization := opt\<rparr>,
                self_model = Some m, trace = []\<rparr>"
  have o: "optimization (config self) = opt" and sm: "self_model self = Some m"
    by (simp_all add: self_def)
  have f: "embedding_lr_init opt = 2 / 1000" "embedding_lr_final_factor opt = 1 / 2"
    "lr_init opt = 1 / 1000" "lr_final_factor opt = 1 / 10" "warm_up opt = 4000"
    "max_steps opt = 30000"
    by (simp_all add: opt_def OptimizationConfig_default_def)
  have pos: "0 < max_steps (optimization (config self))"
    "0 < lr_final_factor (optimization (config self))"
    by (simp_all add: o f)
  have r1: "scheduled_rate (2 / 1000) (1 / 10) 4000 30000 34000 = 2 / 10000"
    and r2: "scheduled_rate (2 / 1000) (1 / 2) 4000 30000 34000 = 1 / 1000"
    by (simp_all add: scheduled_rate_def clamp_def)
  from training_setup_schedules [OF sm pos] obtain optimizers es ns where
    s: "training_setup self = Inr (optimizers, [es, ns])"
    and e: "\<forall>t. scheduler_lr es t =
        Inr (scheduled_rate (embedding_lr_init opt) (lr_final_factor opt) (warm_up opt)
               (max_steps opt) t)"
    and n: "\<forall>t. scheduler_lr ns t =
        Inr (scheduled_rate (lr_init opt) (lr_final_factor opt) (warm_up opt)
               (max_steps opt) t)"
    unfolding o by blast
  have "training_setup self = Inr (optimizers, [es, ns]) \<and>
        scheduler_lr es 34000 = Inr (2 / 10000) \<and>
        scheduled_rate (embedding_lr_init opt) (embedding_lr_final_factor opt)
          (warm_up opt) (max_steps opt) 34000 = 1 / 1000 \<and>
        scheduler_lr es 34000 =
          Inr (scheduled_rate (embedding_lr_init opt) (lr_final_factor opt)
                 (warm_up opt) (max_steps opt) 34000) \<and>
        scheduler_lr ns 34000 =
          Inr (scheduled_rate (lr_init opt) (lr_final_factor opt)
                 (warm_up opt) (max_steps opt) 34000)"
    using s e [rule_format, of 34000] n [rule_format, of 34000] r1 r2 by (simp add: f)
  then have "\<exists>optimizers embedding_scheduler network_scheduler.
        training_setup self = Inr (optimizers, [embedding_scheduler, network_scheduler]) \<and>
        scheduler_lr embedding_scheduler 34000 = Inr (2 / 10000) \<and>
        scheduled_rate (embedding_lr_init opt) (embedding_lr_final_factor opt)
          (warm_up opt) (max_steps opt) 34000 = 1 / 1000 \<and>
        scheduler_lr embedding_scheduler 34000 =
          Inr (scheduled_rate (embedding_lr_init opt) (lr_final_factor opt)
                 (warm_up opt) (max_steps opt) 34000) \<and>
        scheduler_lr network_scheduler 34000 =
          Inr (scheduled_rate (lr_init opt) (lr_final_factor opt)
                 (warm_up opt) (max_steps opt) 34000)"
    by blast
  then show ?thesis
    unfolding Let_def self_def m_def opt_def .
qed

section \<open>The claims about the training step\<close>

text \<open>
  Claim C8. When a pixel mask is given (of the layout of the images), the ground truth
  that enters the loss is the given one with every masked value replaced by the
  rendered value at the same place, and it is this ground truth that both the L1 term
  and the SSIM term are evaluated on. Hence for a non-empty image whose mask marks
  every pixel the L1 loss is exactly 0, whatever was rendered. (Detaching the rendered
  values concerns gradients only and has no counterpart here.)
\<close>

theorem masked_pixels_replaced_before_loss:
  assumes "length bmask = length gt_image" and "length render = length gt_image"
  shows "\<exists>r. training_loss ssim lambda_dssim render gt_image (Some bmask) = Inr r \<and>
     length (gt_image_used r) = length gt_image \<and>
     (\<forall>i. i < length gt_image \<longrightarrow>
        gt_image_used r ! i = (if bmask ! i then render ! i else gt_image ! i)) \<and>
     l1_loss r = tensor_mean (map abs (map2 (\<lambda>a b. a - b) render (gt_image_used r))) \<and>
     ssim_metric r = ssim render (gt_image_used r) \<and>
     loss r = map_option (\<lambda>l. (1 - lambda_dssim) * l + lambda_dssim * (1 - ssim_metric r))
                (l1_loss r) \<and>
     (gt_image \<noteq> [] \<and> (\<forall>i. i < length bmask \<longrightarrow> bmask ! i) \<longrightarrow> l1_loss r = Some 0)"
proof -
  define gt' where "gt' = scatter bmask gt_image (map snd (filter fst (zip bmask render)))"
  have len: "length gt' = length gt_image"
    by (simp add: gt'_def length_scatter)
  have nth: "gt' ! i = (if bmask ! i then render ! i else gt_image ! i)"
    if "i < length gt_image" for i
    unfolding gt'_def using assms that by (rule scatter_gather_nth)
  have zero: "tensor_mean (map abs (map2 (\<lambda>a b. a - b) render gt')) = Some 0"
    if ne: "gt_image \<noteq> []" and all: "\<forall>i. i < length bmask \<longrightarrow> bmask ! i"
  proof -
    have "gt' = render"
    proof (rule nth_equalityI)
      show "length gt' = length render" using len assms(2) by simp
      fix i assume "i < length gt'"
      then have i: "i < length gt_image" using len by simp
      then show "gt' ! i = render ! i"
        using nth [OF i] all assms(1) by simp
    qed
    then have "\<forall>x\<in>set (map abs (map2 (\<lambda>a b. a - b) render gt')). x = 0"
      by (auto simp: set_zip)
    then have "sum_list (map abs (map2 (\<lambda>a b. a - b) render gt')) = 0"
      by (rule sum_list_zero)
    moreover have "map abs (map2 (\<lambda>a b. a - b) render gt') \<noteq> []"
      using ne len assms(2) by auto
    ultimately show ?thesis
      by (simp add: tensor_mean_def)
  qed
  show ?thesis
    using training_loss_masked [OF assms, of ssim lambda_dssim] len nth zero
    unfolding gt'_def [symmetric] by auto
qed

text \<open>
  Three values, all masked: the ground truth becomes the rendering and the L1 loss is 0.
  With only the first masked, the other two keep their error.
\<close>

theorem masked_pixels_replaced_before_loss_witness:
  "\<exists>r. training_loss (\<lambda>a b. 1) (2 / 10) [1 / 2, 3 / 4, 1] [0, 1 / 4, 1 / 2]
          (Some [True, True, True]) = Inr r
     \<and> gt_image_used r = [1 / 2, 3 / 4, 1] \<and> l1_loss r = Some 0
     \<and> (\<exists>r'. training_loss (\<lambda>a b. 1) (2 / 10) [1 / 2, 3 / 4, 1] [0, 1 / 4, 1 / 2]
          (Some [True, False, False]) = Inr r'
        \<and> gt_image_used r' = [1 / 2, 1 / 4, 1 / 2] \<and> l1_loss r' = Some (1 / 3))"
proof -
  have l: "length [True, True, True] = length [0, 1 / 4, 1 / 2 :: real]"
    "length [1 / 2, 3 / 4, 1 :: real] = length [0, 1 / 4, 1 / 2 :: real]"
    "length [True, False, False] = length [0, 1 / 4, 1 / 2 :: real]"
    by simp_all
  from masked_pixels_replaced_before_loss [OF l(1,2), of "\<lambda>a b. 1" "2 / 10"]
  obtain r where r: "training_loss (\<lambda>a b. 1) (2 / 10) [1 / 2, 3 / 4, 1] [0, 1 / 4, 1 / 2]
          (Some [True, True, True]) = Inr r"
    and z: "l1_loss r = Some 0"
    by (auto simp: nth_Cons split: nat.splits)
  have g: "gt_image_used r = [1 / 2, 3 / 4, 1]"
    using r by (auto simp: training_loss_def mask_select_def mask_assign_def broadcast2_def Let_def)
  have "\<exists>r'. training_loss (\<lambda>a b. 1) (2 / 10) [1 / 2, 3 / 4, 1] [0, 1 / 4, 1 / 2]
          (Some [True, False, False]) = Inr r'
        \<and> gt_image_used r' = [1 / 2, 1 / 4, 1 / 2] \<and> l1_loss r' = Some (1 / 3)"
    by (simp add: training_loss_def mask_select_def mask_assign_def broadcast2_def Let_def
        tensor_mean_def)
  with r z g show ?thesis by blast
qed

text \<open>
  Claim C9, as stated: grow/prune gets a screen-radius threshold exactly when the step
  has passed the most recent opacity-reset boundary, the largest multiple of
  \<open>opacity_reset_interval\<close> not exceeding the step. The code compares the step with
  \<open>opacity_reset_interval\<close> itself. With the intervals 100 and 3000, densification
  from 500 until 15000: at step 600 the most recent boundary is 0 and has been passed,
  yet grow/prune runs without a threshold; at step 6000, itself a boundary and so not
  passed, it runs with the threshold 20.
\<close>

theorem densify_threshold_not_recent_boundary:
  "densification \<lparr>densify_from_iter = 500, densify_until_iter = 15000,
       densification_interval = 100, opacity_reset_interval = 3000,
       densify_grad_threshold = 2 / 10000\<rparr> (0, 0, 0) 1 599 =
     Inr [UpdateMaxRadii2D, AddDensificationStats, DensifyAndPrune (2 / 10000) (5 / 1000) 1 None]
   \<and> recent_reset_boundary 3000 600 < 600
   \<and> densification \<lparr>densify_from_iter = 500, densify_until_iter = 15000,
       densification_interval = 100, opacity_reset_interval = 3000,
       densify_grad_threshold = 2 / 10000\<rparr> (0, 0, 0) 1 5999 =
     Inr [UpdateMaxRadii2D, AddDensificationStats,
          DensifyAndPrune (2 / 10000) (5 / 1000) 1 (Some 20), ResetOpacity]
   \<and> \<not> recent_reset_boundary 3000 6000 < 6000"
  by (simp add: densification_def py_mod_def Let_def recent_reset_boundary_def)

text \<open>
  Claim C9, amended. On every step of density control (\<open>step < densify_until_iter\<close>,
  \<open>step > densify_from_iter\<close>, \<open>step % densification_interval == 0\<close>, the step being
  the trainer's counter plus one), grow/prune is invoked once, after the statistics
  are updated, with the screen-radius threshold 20 exactly when
  \<open>step > opacity_reset_interval\<close>, that is once the step has passed the first
  opacity-reset boundary, and with no threshold otherwise; the opacity reset follows
  when the step is a multiple of \<open>opacity_reset_interval\<close>.
\<close>

theorem densify_threshold_after_first_reset:
  assumes "global_step < densify_until_iter opt"
    and "densify_from_iter opt < global_step"
    and "densification_interval opt \<noteq> 0"
    and "global_step mod densification_interval opt = 0"
    and "opacity_reset_interval opt \<noteq> 0"
  shows "densification opt background_color cameras_extent (global_step - 1) =
     Inr ([UpdateMaxRadii2D, AddDensificationStats,
           DensifyAndPrune (densify_grad_threshold opt) (5 / 1000) cameras_extent
             (if opacity_reset_interval opt < global_step then Some 20 else None)] @
          (if global_step mod opacity_reset_interval opt = 0 then [ResetOpacity] else []))"
  using assms by (rule densification_grow_prune)

text \<open>Step 3100 with the same configuration: past the first reset, threshold 20.\<close>

theorem densify_threshold_after_first_reset_witness:
  "densification \<lparr>densify_from_iter = 500, densify_until_iter = 15000,
       densification_interval = 100, opacity_reset_interval = 3000,
       densify_grad_threshold = 2 / 10000\<rparr> (0, 0, 0) 1 3099 =
     Inr [UpdateMaxRadii2D, AddDensificationStats,
          DensifyAndPrune (2 / 10000) (5 / 1000) 1 (Some 20)]"
  using densify_threshold_after_first_reset
    [of 3100 "\<lparr>densify_from_iter = 500, densify_until_iter = 15000,
       densification_interval = 100, opacity_reset_interval = 3000,
       densify_grad_threshold = 2 / 10000\<rparr>" "(0, 0, 0)" 1]
  by simp

section \<open>The claim about the COLMAP data parser\<close>

text \<open>
  Claim C10. The split of \<open>get_outputs\<close> on a non-empty enumeration of images returns.
  With \<open>eval_step \<le> 1\<close> the training set is every image in enumeration order and the
  validation set is the single image at index 0, which is thus also a training image.
  With \<open>eval_step > 1\<close> the validation set holds the indices divisible by
  \<open>eval_step\<close>, the training set all others, each in enumeration order; the two sets
  are disjoint and together are all the images.
\<close>

theorem eval_step_split:
  assumes "image_name_list \<noteq> []"
  shows "\<exists>train val.
     get_outputs_split image_name_list eval_step = Inr (train, val) \<and>
     (eval_step \<le> 1 \<longrightarrow>
        image_indices train = [0..<length image_name_list] \<and>
        image_names train = image_name_list \<and>
        image_indices val = [0] \<and>
        image_names val = [image_name_list ! 0] \<and>
        set (image_indices val) \<subseteq> set (image_indices train)) \<and>
     (1 < eval_step \<longrightarrow>
        image_indices val = filter (\<lambda>i. int i mod eval_step = 0) [0..<length image_name_list] \<and>
        image_indices train = filter (\<lambda>i. int i mod eval_step \<noteq> 0) [0..<length image_name_list] \<and>
        image_names val = map (\<lambda>i. image_name_list ! i) (image_indices val) \<and>
        image_names train = map (\<lambda>i. image_name_list ! i) (image_indices train) \<and>
        set (image_indices train) \<inter> set (image_indices val) = {} \<and>
        set (image_indices train) \<union> set (image_indices val) = {0..<length image_name_list})"
proof (cases "eval_step \<le> 1")
  case True
  then show ?thesis
    using assms get_outputs_split_small [OF assms True] by auto
next
  case False
  then have e: "1 < eval_step" by simp
  show ?thesis
    using get_outputs_split_large [OF assms e] e by auto
qed

text \<open>Five images, split with \<open>eval_step = 2\<close> and with \<open>eval_step = 1\<close>.\<close>

theorem eval_step_split_witness:
  "(\<exists>train val.
      get_outputs_split [''a'', ''b'', ''c'', ''d'', ''e''] 2 = Inr (train, val) \<and>
      image_indices train = [1, 3] \<and> image_names train = [''b'', ''d''] \<and>
      image_indices val = [0, 2, 4] \<and> image_names val = [''a'', ''c'', ''e''])
   \<and> (\<exists>train val.
      get_outputs_split [''a'', ''b'', ''c'', ''d'', ''e''] 1 = Inr (train, val) \<and>
      image_indices train = [0, 1, 2, 3, 4] \<and>
      image_names train = [''a'', ''b'', ''c'', ''d'', ''e''] \<and>
      image_indices val = [0] \<and> image_names val = [''a''])"
proof -
  have n: "[''a'', ''b'', ''c'', ''d'', ''e''] \<noteq> []" by simp
  have u: "[0..<5] = [0, 1, 2, 3, 4::nat]" by (simp add: upt_rec)
  show ?thesis
    using eval_step_split [OF n, of 2] eval_step_split [OF n, of 1]
    by (auto simp: u eval_nat_numeral)
qed

end
